theory Spec2Isabelle
  imports Complex_Main "HOL-Library.Sublist"
begin

section \<open>Data model of the swagger server (server.go)\<close>

text \<open>
  \<^verbatim>\<open>APIMetadata\<close>, field for field as the Go struct declares it. A \<^verbatim>\<open>[]string\<close> is a
  list; the difference between a nil and an empty slice is not observed by the code below.
\<close>

record APIMetadata =
  Name :: string
  URL :: string
  Title :: string
  Version :: string
  Description :: string
  ResourceType :: string
  ResourceName :: string
  Namespace :: string
  LastUpdated :: string
  AllowedMethods :: "string list"
  Error :: string

text \<open>
  The logger of the server is modelled by the entries it has emitted, oldest first, each with
  its logrus level. Level filtering is configuration of the logger and is not modelled.
\<close>

datatype level = DebugLevel | InfoLevel | WarnLevel | ErrorLevel

type_synonym logline = "level \<times> string"

text \<open>
  \<^verbatim>\<open>Server\<close>: the map of API name to metadata, the base path and the logger. The mutex
  serialises access and has no sequential content.
\<close>

record Server =
  specs :: "string \<rightharpoonup> APIMetadata"
  basePath :: string
  logger :: "logline list"

definition logf :: "level \<Rightarrow> string \<Rightarrow> Server \<Rightarrow> Server" where
  "logf lvl msg s = s\<lparr>logger := logger s @ [(lvl, msg)]\<rparr>"

subsection \<open>Formatting\<close>

text \<open>The verb \<^verbatim>\<open>%d\<close> of \<^verbatim>\<open>fmt.Sprintf\<close> on an int: decimal digits, a minus sign when negative.\<close>

definition digit_char :: "nat \<Rightarrow> char" where
  "digit_char d = ''0123456789'' ! d"

fun nat_decimal :: "nat \<Rightarrow> string" where
  "nat_decimal n = (if n < 10 then [digit_char n]
                    else nat_decimal (n div 10) @ [digit_char (n mod 10)])"

declare nat_decimal.simps [simp del]

definition fmt_d :: "int \<Rightarrow> string" where
  "fmt_d i = (if i < 0 then CHR ''-'' # nat_decimal (nat (- i)) else nat_decimal (nat i))"

section \<open>The registry: UpdateSpecs\<close>

text \<open>
  The record \<^verbatim>\<open>UpdateSpecs\<close> builds for an accepted candidate: the struct literal of the
  loop body. Fields the literal does not mention (\<^verbatim>\<open>Version\<close>, \<^verbatim>\<open>Error\<close>) take Go's zero
  value, the empty string.
\<close>

definition stored_metadata :: "APIMetadata \<Rightarrow> APIMetadata" where
  "stored_metadata api =
     \<lparr> Name = Name api,
       URL = URL api,
       Title = Name api,
       Version = '''',
       Description = ''API from '' @ Namespace api @ ''/'' @ ResourceName api,
       ResourceType = ResourceType api,
       ResourceName = ResourceName api,
       Namespace = Namespace api,
       LastUpdated = LastUpdated api,
       AllowedMethods = AllowedMethods api,
       Error = '''' \<rparr>"

text \<open>
  The loop of \<^verbatim>\<open>UpdateSpecs\<close> over the candidates, threading the map under construction
  and the server (for its logger).
\<close>

fun UpdateSpecs_loop ::
  "Server \<Rightarrow> (string \<rightharpoonup> APIMetadata) \<Rightarrow> APIMetadata list \<Rightarrow> Server \<times> (string \<rightharpoonup> APIMetadata)" where
  "UpdateSpecs_loop s newSpecs [] = (s, newSpecs)"
| "UpdateSpecs_loop s newSpecs (api # apis) =
     (if Error api \<noteq> '''' then
        UpdateSpecs_loop
          (logf WarnLevel (''Skipping API spec for '' @ Name api @ '' due to existing error: '' @ Error api) s)
          newSpecs apis
      else UpdateSpecs_loop s (newSpecs(Name api \<mapsto> stored_metadata api)) apis)"

definition UpdateSpecs :: "Server \<Rightarrow> APIMetadata list \<Rightarrow> Server" where
  "UpdateSpecs s apis =
     (case UpdateSpecs_loop s Map.empty apis of
        (s', newSpecs) \<Rightarrow>
          logf InfoLevel (''API specs updated. Total specs: '' @ fmt_d (int (card (dom newSpecs))))
            (s'\<lparr>specs := newSpecs\<rparr>))"

text \<open>The error-free candidates of a batch, in batch order.\<close>

definition accepted :: "APIMetadata list \<Rightarrow> APIMetadata list" where
  "accepted apis = filter (\<lambda>api. Error api = '''') apis"

text \<open>The last accepted candidate of a given name, if there is one.\<close>

definition last_accepted :: "APIMetadata list \<Rightarrow> string \<Rightarrow> APIMetadata option" where
  "last_accepted apis n = find (\<lambda>api. Name api = n) (rev (accepted apis))"

section \<open>Decoded JSON\<close>

text \<open>
  What \<^verbatim>\<open>encoding/json\<close> produces for \<^verbatim>\<open>interface{}\<close>: nil, bool, float64, string,
  \<^verbatim>\<open>[]interface{}\<close> and \<^verbatim>\<open>map[string]interface{}\<close>. Numbers are carried along and never
  inspected by the server. A Go map is a finite partial function from keys to values.
\<close>

datatype json =
    JNull
  | JBool bool
  | JNumber real
  | JString string
  | JArray "json list"
  | JObject "string \<Rightarrow> json option"

type_synonym jobject = "string \<Rightarrow> json option"

section \<open>net/url, net/http and encoding/json as the server sees them\<close>

text \<open>
  \<^verbatim>\<open>url.URL\<close> with the fields of the Go struct. \<^verbatim>\<open>User\<close> is a user name with an optional
  password, or absent.
\<close>

record url =
  Scheme :: string
  Opaque :: string
  User :: "(string \<times> string option) option"
  Host :: string
  Path :: string
  RawPath :: string
  OmitHost :: bool
  ForceQuery :: bool
  RawQuery :: string
  Fragment :: string
  RawFragment :: string

text \<open>The zero value of \<^verbatim>\<open>url.URL\<close>; \<^verbatim>\<open>&url.URL{Path: p}\<close> is \<open>zero_url\<lparr>Path := p\<rparr>\<close>.\<close>

definition zero_url :: url where
  "zero_url = \<lparr> Scheme = '''', Opaque = '''', User = None, Host = '''', Path = '''', RawPath = '''',
                OmitHost = False, ForceQuery = False, RawQuery = '''', Fragment = '''',
                RawFragment = '''' \<rparr>"

text \<open>\<^verbatim>\<open>(*URL).IsAbs\<close>: the URL has a non-empty scheme.\<close>

definition IsAbs :: "url \<Rightarrow> bool" where
  "IsAbs u = (Scheme u \<noteq> '''')"

text \<open>
  \<^verbatim>\<open>http.Header\<close> maps a canonical header name to its values in order. The names the server
  passes to \<^verbatim>\<open>Set\<close> and \<^verbatim>\<open>Add\<close> are canonical already (literals, or keys taken from another
  \<^verbatim>\<open>http.Header\<close>), so canonicalisation is the identity on them.
\<close>

type_synonym Header = "string \<Rightarrow> string list option"

definition Header_Values :: "Header \<Rightarrow> string \<Rightarrow> string list" where
  "Header_Values h name = (case h name of None \<Rightarrow> [] | Some vs \<Rightarrow> vs)"

definition Header_Set :: "string \<Rightarrow> string \<Rightarrow> Header \<Rightarrow> Header" where
  "Header_Set name v h = h(name \<mapsto> [v])"

definition Header_Add :: "string \<Rightarrow> string \<Rightarrow> Header \<Rightarrow> Header" where
  "Header_Add name v h = h(name \<mapsto> Header_Values h name @ [v])"

text \<open>
  An inbound request: method, \<^verbatim>\<open>r.URL.Path\<close>, the parsed query \<^verbatim>\<open>r.URL.Query()\<close>, the header
  as the sequence of (name, values) entries in the order the \<^verbatim>\<open>range\<close> loop visits them, and
  the body: absent (nil), or what \<^verbatim>\<open>io.ReadAll\<close> gives, an error text or the bytes.
\<close>

record Request =
  Method :: string
  URL_Path :: string
  URL_Query :: "string \<Rightarrow> string list option"
  Header :: "(string \<times> string list) list"
  Body :: "(string + string) option"

text \<open>\<^verbatim>\<open>url.Values.Get\<close>: the first value of the key, the empty string when there is none.\<close>

definition Values_Get :: "(string \<Rightarrow> string list option) \<Rightarrow> string \<Rightarrow> string" where
  "Values_Get v key = (case v key of None \<Rightarrow> '''' | Some [] \<Rightarrow> '''' | Some (x # xs) \<Rightarrow> x)"

text \<open>
  A request that goes out, and a response as the client returns it. The body is taken as read
  to its end without a read error, and as no longer than a \<^verbatim>\<open>Content-Length\<close> entry of the
  header declares; closing it is taken to succeed.
\<close>

record ClientRequest =
  out_Method :: string
  out_URL :: string
  out_Header :: Header
  out_Body :: "string option"

record Response =
  StatusCode :: int
  resp_Header :: "(string \<times> string list) list"
  resp_Body :: string

text \<open>
  What is written to the body of a response: text, or a document. \<^verbatim>\<open>Encode(spec)\<close> writes the
  serialisation of a document; the model keeps the document itself.
\<close>

datatype payload = Text string | Document jobject

text \<open>
  The library and the network are outside the repository. Their answers are parameters of the
  model: an error is \<open>Inl\<close> of its text (\<^verbatim>\<open>err.Error()\<close>, what \<^verbatim>\<open>%v\<close> prints).
  \<^item> \<open>url_Parse\<close>, \<open>url_ResolveReference\<close>, \<open>url_String\<close>: \<^verbatim>\<open>url.Parse\<close>,
    \<^verbatim>\<open>(*URL).ResolveReference\<close> (reference resolution per RFC 3986) and \<^verbatim>\<open>(*URL).String\<close>;
  \<^item> \<open>json_Decode\<close>: \<^verbatim>\<open>json.NewDecoder(body).Decode\<close> into a \<^verbatim>\<open>map[string]interface{}\<close>;
  \<^item> \<open>http_Get\<close>, \<open>client_Do\<close>: what the HTTP client returns in the end, an error or the last
    response it received. The client (\<^verbatim>\<open>http.DefaultClient\<close>, \<^verbatim>\<open>&http.Client{}\<close>) follows
    redirects by itself;
  \<^item> \<open>redirects\<close>: for a request handed to the client, the redirect responses it receives on
    the way, each with the follow-up request the client sends in answer (none when the first
    response is the last);
  \<^item> \<open>NewRequest_error\<close>: the validation of method and URL by \<^verbatim>\<open>http.NewRequest\<close>;
  \<^item> \<open>write_error\<close>: the failure of the connection to the caller, if any, that a write of
    the given data runs into.
\<close>

record World =
  url_Parse :: "string \<Rightarrow> string + url"
  url_ResolveReference :: "url \<Rightarrow> url \<Rightarrow> url"
  url_String :: "url \<Rightarrow> string"
  json_Decode :: "string \<Rightarrow> string + jobject"
  http_Get :: "string \<Rightarrow> string + Response"
  NewRequest_error :: "string \<Rightarrow> string \<Rightarrow> string option"
  client_Do :: "ClientRequest \<Rightarrow> string + Response"
  redirects :: "ClientRequest \<Rightarrow> (Response \<times> ClientRequest) list"
  write_error :: "payload \<Rightarrow> string option"

text \<open>
  \<^verbatim>\<open>http.NewRequest\<close>: an error, or a request with the given method (\<^verbatim>\<open>GET\<close> for the empty
  string), URL and body and an empty header.
\<close>

definition http_NewRequest :: "World \<Rightarrow> string \<Rightarrow> string \<Rightarrow> string option \<Rightarrow> string + ClientRequest" where
  "http_NewRequest W method target body =
     (case NewRequest_error W method target of
        Some err \<Rightarrow> Inl err
      | None \<Rightarrow> Inr \<lparr> out_Method = (if method = '''' then ''GET'' else method), out_URL = target,
                       out_Header = Map.empty, out_Body = body \<rparr>)"

text \<open>The request \<^verbatim>\<open>http.Get(url)\<close> hands to the client.\<close>

definition get_request :: "string \<Rightarrow> ClientRequest" where
  "get_request target = \<lparr> out_Method = ''GET'', out_URL = target, out_Header = Map.empty, out_Body = None \<rparr>"

text \<open>
  How far a response has got: nothing sent yet; the status line sent, with the header map as
  it was at that moment (later changes are not sent); or the status line sent and the
  connection to the caller lost since, with the error of the write that failed.
\<close>

datatype sending = NothingSent | HeaderSent int Header | ConnectionLost int Header string

text \<open>
  \<^verbatim>\<open>http.ResponseWriter\<close>: the header map under construction, how far the response has got,
  the informational (1xx) responses sent before it, each with the header map of its moment,
  and the body data written to the writer and not refused by it, in order. When the
  connection is lost during a write, the data of that write is the last entry, and the caller
  may not have received all of it. What the server adds on its own once the handler has
  returned (status 200 when none was written) is not part of the handler.
\<close>

record ResponseWriter =
  rw_Header :: Header
  rw_sending :: sending
  rw_informational :: "(int \<times> Header) list"
  rw_body :: "payload list"

text \<open>The status sent, if one has been sent, and the header map sent with it.\<close>

definition rw_status :: "ResponseWriter \<Rightarrow> int option" where
  "rw_status w =
     (case rw_sending w of
        NothingSent \<Rightarrow> None
      | HeaderSent code h \<Rightarrow> Some code
      | ConnectionLost code h err \<Rightarrow> Some code)"

definition rw_sent :: "ResponseWriter \<Rightarrow> Header" where
  "rw_sent w =
     (case rw_sending w of
        NothingSent \<Rightarrow> Map.empty
      | HeaderSent code h \<Rightarrow> h
      | ConnectionLost code h err \<Rightarrow> h)"

text \<open>
  \<^verbatim>\<open>WriteHeader\<close> of the server's response writer. A second call is ignored. Otherwise a code
  outside 100 to 999 panics (\<open>Inl\<close> of the panic value); a code from 100 to 199 other than 101
  sends an informational response, with the header map of the moment, and leaves the final
  response open; any other code is the status of the response.
\<close>

definition WriteHeader :: "int \<Rightarrow> ResponseWriter \<Rightarrow> string + ResponseWriter" where
  "WriteHeader code w =
     (case rw_sending w of
        NothingSent \<Rightarrow>
          if code < 100 \<or> 999 < code then Inl (''invalid WriteHeader code '' @ fmt_d code)
          else if 100 \<le> code \<and> code \<le> 199 \<and> code \<noteq> 101
          then Inr (w\<lparr>rw_informational := rw_informational w @ [(code, rw_Header w)]\<rparr>)
          else Inr (w\<lparr>rw_sending := HeaderSent code (rw_Header w)\<rparr>)
      | HeaderSent c h \<Rightarrow> Inr w
      | ConnectionLost c h err \<Rightarrow> Inr w)"

text \<open>\<^verbatim>\<open>bodyAllowedForStatus\<close>: no body with a 1xx, 204 or 304 status.\<close>

definition bodyAllowedForStatus :: "int \<Rightarrow> bool" where
  "bodyAllowedForStatus status =
     (\<not> (100 \<le> status \<and> status \<le> 199) \<and> status \<noteq> 204 \<and> status \<noteq> 304)"

text \<open>
  \<^verbatim>\<open>Write\<close> of the server's response writer, with the error it returns. A write before
  \<^verbatim>\<open>WriteHeader\<close> sends status 200 first. Empty data is accepted and changes nothing. Data
  for a status that allows no body is refused. Data written after the connection was lost is
  refused with the error of the loss. Otherwise the data is accepted; the connection may fail
  while it is sent.
\<close>

definition Write :: "World \<Rightarrow> payload \<Rightarrow> ResponseWriter \<Rightarrow> string option \<times> ResponseWriter" where
  "Write W p w =
     (let w1 = (case rw_sending w of
                  NothingSent \<Rightarrow> w\<lparr>rw_sending := HeaderSent 200 (rw_Header w)\<rparr>
                | HeaderSent c h \<Rightarrow> w
                | ConnectionLost c h err \<Rightarrow> w)
      in if p = Text '''' then (None, w1)
         else
           (case rw_sending w1 of
              NothingSent \<Rightarrow> (None, w1)
            | ConnectionLost c h err \<Rightarrow>
                if bodyAllowedForStatus c then (Some err, w1)
                else (Some ''http: request method or response status code does not allow body'', w1)
            | HeaderSent c h \<Rightarrow>
                if \<not> bodyAllowedForStatus c
                then (Some ''http: request method or response status code does not allow body'', w1)
                else
                  (case write_error W p of
                     None \<Rightarrow> (None, w1\<lparr>rw_body := rw_body w1 @ [p]\<rparr>)
                   | Some err \<Rightarrow>
                       (Some err, w1\<lparr>rw_body := rw_body w1 @ [p],
                                      rw_sending := ConnectionLost c h err\<rparr>))))"

text \<open>
  \<^verbatim>\<open>http.Error\<close>: plain-text headers, the status, then the message and a newline, whose write
  error is ignored. The result is the panic value, if \<^verbatim>\<open>WriteHeader\<close> panics, and the writer.
\<close>

definition http_Error :: "World \<Rightarrow> string \<Rightarrow> int \<Rightarrow> ResponseWriter \<Rightarrow> string option \<times> ResponseWriter" where
  "http_Error W msg code w =
     (let w1 = w\<lparr>rw_Header := Header_Set ''X-Content-Type-Options'' ''nosniff''
                                 (Header_Set ''Content-Type'' ''text/plain; charset=utf-8'' (rw_Header w))\<rparr>
      in case WriteHeader code w1 of
           Inl panic \<Rightarrow> (Some panic, w1)
         | Inr w2 \<Rightarrow> (None, snd (Write W (Text (msg @ [CHR 0x0A])) w2)))"

text \<open>
  \<^verbatim>\<open>io.Copy(w, body)\<close> with the error it returns: nothing is written for an empty body. The
  upstream body is taken as read to its end.
\<close>

definition io_Copy :: "World \<Rightarrow> string \<Rightarrow> ResponseWriter \<Rightarrow> string option \<times> ResponseWriter" where
  "io_Copy W bytes w = (if bytes = '''' then (None, w) else Write W (Text bytes) w)"

text \<open>\<^verbatim>\<open>strings.TrimPrefix\<close>; \<^verbatim>\<open>strings.HasPrefix(s, p)\<close> is \<open>prefix p s\<close>.\<close>

definition TrimPrefix :: "string \<Rightarrow> string \<Rightarrow> string" where
  "TrimPrefix s p = (if prefix p s then drop (length p) s else s)"

section \<open>Rewriting a fetched document\<close>

text \<open>
  \<^verbatim>\<open>makeServerURL\<close>. \<^verbatim>\<open>base := *metadataURL\<close> copies the URL; the copy gets a slash appended
  to its path when that path is empty or does not end in one and the path component does not
  begin with one.
\<close>

definition makeServerURL :: "World \<Rightarrow> url \<Rightarrow> string \<Rightarrow> string" where
  "makeServerURL W metadataURL pathComponent =
     (if pathComponent = '''' then Scheme metadataURL @ ''://'' @ Host metadataURL
      else if (case url_Parse W pathComponent of
                 Inl err \<Rightarrow> False
               | Inr parsedPathComponent \<Rightarrow> IsAbs parsedPathComponent)
      then pathComponent
      else
        let base =
              (if (Path metadataURL = '''' \<or> last (Path metadataURL) \<noteq> CHR ''/'') \<and>
                  (pathComponent \<noteq> '''' \<and>
                   (length pathComponent = 0 \<or> hd pathComponent \<noteq> CHR ''/''))
               then metadataURL\<lparr>Path := Path metadataURL @ ''/''\<rparr>
               else metadataURL)
        in if prefix ''/'' pathComponent
           then Scheme metadataURL @ ''://'' @ Host metadataURL @ pathComponent
           else url_String W (url_ResolveReference W base (zero_url\<lparr>Path := pathComponent\<rparr>)))"

text \<open>The type assertion \<^verbatim>\<open>m[key].(string)\<close> with the zero value on failure.\<close>

definition string_or_empty :: "jobject \<Rightarrow> string \<Rightarrow> string" where
  "string_or_empty m key = (case m key of Some (JString v) \<Rightarrow> v | _ \<Rightarrow> '''')"

text \<open>\<^verbatim>\<open>existingServers, _ := spec["servers"].([]interface{})\<close>: nil, of length 0, on failure.\<close>

definition existingServers :: "jobject \<Rightarrow> json list" where
  "existingServers spec = (case spec ''servers'' of Some (JArray xs) \<Rightarrow> xs | _ \<Rightarrow> [])"

text \<open>The one-entry map \<^verbatim>\<open>map[string]interface{}{"url": u}\<close>.\<close>

definition server_entry :: "string \<Rightarrow> json" where
  "server_entry u = JObject [''url'' \<mapsto> JString u]"

text \<open>
  The first part of the OpenAPI 3.x branch: the entry made from the first existing server,
  when that is an object with a string \<^verbatim>\<open>url\<close>; otherwise nothing is appended.
\<close>

definition fromFirstServer :: "World \<Rightarrow> url \<Rightarrow> json list \<Rightarrow> json list" where
  "fromFirstServer W metadataURL servers =
     (case servers of
        [] \<Rightarrow> []
      | first # rest \<Rightarrow>
          (case first of
             JObject firstServer \<Rightarrow>
               (case firstServer ''url'' of
                  Some (JString serverURL) \<Rightarrow> [server_entry (makeServerURL W metadataURL serverURL)]
                | _ \<Rightarrow> [])
           | _ \<Rightarrow> []))"

definition updateSpecServerInfo :: "World \<Rightarrow> jobject \<Rightarrow> url \<Rightarrow> jobject" where
  "updateSpecServerInfo W spec metadataURL =
     (let openAPIVersion = string_or_empty spec ''openapi'';
          swaggerVersion = string_or_empty spec ''swagger''
      in if openAPIVersion \<noteq> '''' \<and> prefix ''3.'' openAPIVersion then
           let newServers = fromFirstServer W metadataURL (existingServers spec);
               newServers2 = (if length newServers = 0
                              then newServers @ [server_entry (makeServerURL W metadataURL '''')]
                              else newServers)
           in spec(''servers'' \<mapsto> JArray (newServers2 @ existingServers spec))
         else if swaggerVersion = ''2.0'' then spec(''host'' \<mapsto> JString (Host metadataURL))
         else (case spec ''basePath'' of
                 Some (JString basePathStr) \<Rightarrow>
                   spec(''basePath'' \<mapsto> JString (makeServerURL W metadataURL basePathStr))
               | _ \<Rightarrow> spec))"

section \<open>Request handlers\<close>

text \<open>
  What a handler works on: the server (of which only the logger changes); the response
  writer; the requests the handler has handed to the HTTP client, oldest first; the redirect
  responses the client has received for them, each with the follow-up request the client has
  sent by itself; and the value the handler has panicked with, if it has: its run ends there
  and the server closes the connection.
\<close>

record state =
  srv :: Server
  rw :: ResponseWriter
  issued :: "ClientRequest list"
  followed :: "(Response \<times> ClientRequest) list"
  panicked :: "string option"

definition slog :: "level \<Rightarrow> string \<Rightarrow> state \<Rightarrow> state" where
  "slog lvl msg st = st\<lparr>srv := logf lvl msg (srv st)\<rparr>"

text \<open>
  A request goes to the HTTP client (\<^verbatim>\<open>http.Get\<close>, \<^verbatim>\<open>client.Do\<close>): the handler hands it over,
  and the client sends it and whatever follow-up requests the redirects it meets ask for.
\<close>

definition call_client :: "World \<Rightarrow> ClientRequest \<Rightarrow> state \<Rightarrow> state" where
  "call_client W req st =
     st\<lparr>issued := issued st @ [req], followed := followed st @ redirects W req\<rparr>"

definition stripBasePath :: "Server \<Rightarrow> string \<Rightarrow> string" where
  "stripBasePath s path =
     (if basePath s \<noteq> '''' \<and> prefix (basePath s) path then TrimPrefix path (basePath s) else path)"

definition logAndSendError ::
  "World \<Rightarrow> Request \<Rightarrow> int \<Rightarrow> string \<Rightarrow> string \<Rightarrow> state \<Rightarrow> state" where
  "logAndSendError W r statusCode internalFullLogMsg userMsg st =
     (let st1 = slog ErrorLevel
                  (''['' @ Method r @ '' '' @ URL_Path r @ ''] HTTP '' @ fmt_d statusCode @ '' - '' @
                   internalFullLogMsg) st;
          sent = http_Error W userMsg statusCode (rw st1)
      in case fst sent of
           None \<Rightarrow> st1\<lparr>rw := snd sent\<rparr>
         | Some panic \<Rightarrow> st1\<lparr>rw := snd sent, panicked := Some panic\<rparr>)"

text \<open>
  The last step of \<^verbatim>\<open>serveIndividualSpec\<close>: the content type is set and the rewritten
  document is encoded to the response writer; a failure of that is answered as an error.
  \<^verbatim>\<open>Encode\<close> marshals the document and writes the result with one \<^verbatim>\<open>Write\<close>; marshalling a
  document that was decoded from JSON and rewritten with strings does not fail, so \<^verbatim>\<open>Encode\<close>
  fails when its write does.
\<close>

definition encode_document :: "World \<Rightarrow> Request \<Rightarrow> jobject \<Rightarrow> state \<Rightarrow> state" where
  "encode_document W r doc st =
     (let encoded = Write W (Document doc)
                      ((rw st)\<lparr>rw_Header := Header_Set ''Content-Type'' ''application/json''
                                                 (rw_Header (rw st))\<rparr>)
      in case fst encoded of
           None \<Rightarrow> st\<lparr>rw := snd encoded\<rparr>
         | Some err \<Rightarrow>
             logAndSendError W r 500 (''Failed to encode modified spec: '' @ err)
               ''Failed to encode modified spec'' (st\<lparr>rw := snd encoded\<rparr>))"

text \<open>\<^verbatim>\<open>serveIndividualSpec\<close>. The \<^verbatim>\<open>DEV_MODE\<close> block is empty in the source.\<close>

definition serveIndividualSpec :: "World \<Rightarrow> Request \<Rightarrow> state \<Rightarrow> state" where
  "serveIndividualSpec W r st =
     (let apiName = TrimPrefix (URL_Path r) ''/api/'' in
      case specs (srv st) apiName of
        None \<Rightarrow> logAndSendError W r 404 (''API not found: '' @ apiName) ''API not found'' st
      | Some metadata \<Rightarrow>
          let urlStr = URL metadata;
              st1 = call_client W (get_request urlStr) st
          in case http_Get W urlStr of
               Inl err \<Rightarrow>
                 logAndSendError W r 500 (''Failed to fetch spec: '' @ err)
                   (''Failed to fetch spec: '' @ err) st1
             | Inr resp \<Rightarrow>
                 if StatusCode resp \<noteq> 200 then
                   logAndSendError W r (StatusCode resp)
                     (''Failed to fetch spec, status: '' @ fmt_d (StatusCode resp))
                     (''Failed to fetch spec, status: '' @ fmt_d (StatusCode resp)) st1
                 else
                   (case url_Parse W (URL metadata) of
                      Inl err \<Rightarrow>
                        logAndSendError W r 500 (''Failed to parse metadata URL: '' @ err)
                          (''Failed to parse metadata URL: '' @ err) st1
                    | Inr metadataURL \<Rightarrow>
                        (case json_Decode W (resp_Body resp) of
                           Inl err \<Rightarrow>
                             logAndSendError W r 500 (''Failed to decode OpenAPI spec: '' @ err)
                               (''Failed to decode OpenAPI spec: '' @ err) st1
                         | Inr spec \<Rightarrow>
                             let st2 = slog DebugLevel (''Updating server info for spec: '' @ apiName) st1;
                                 spec2 = updateSpecServerInfo W spec metadataURL
                             in encode_document W r spec2 st2)))"

text \<open>The two nested \<^verbatim>\<open>range\<close> loops that copy a header with \<^verbatim>\<open>Add\<close>.\<close>

fun add_values :: "string \<Rightarrow> string list \<Rightarrow> Header \<Rightarrow> Header" where
  "add_values name [] h = h"
| "add_values name (v # values) h = add_values name values (Header_Add name v h)"

fun copy_header :: "(string \<times> string list) list \<Rightarrow> Header \<Rightarrow> Header" where
  "copy_header [] h = h"
| "copy_header ((name, values) # rest) h = copy_header rest (add_values name values h)"

text \<open>
  The body handling of \<^verbatim>\<open>proxyRequest\<close>: a nil body gives a nil reader; otherwise the body
  is read whole with \<^verbatim>\<open>io.ReadAll\<close>, which fails or gives the bytes for the outbound request.
\<close>

definition readBody :: "(string + string) option \<Rightarrow> string + string option" where
  "readBody body =
     (case body of
        None \<Rightarrow> Inr None
      | Some (Inl err) \<Rightarrow> Inl err
      | Some (Inr bodyBytes) \<Rightarrow> Inr (Some bodyBytes))"

text \<open>
  The end of \<^verbatim>\<open>proxyRequest\<close>, once the client has returned a response: its header entries
  are added to the writer's header map, its status is written, which may panic, and its body
  is copied; an error of the copy is logged.
\<close>

definition relay_response :: "World \<Rightarrow> Request \<Rightarrow> Response \<Rightarrow> state \<Rightarrow> state" where
  "relay_response W r resp st =
     (let w1 = (rw st)\<lparr>rw_Header := copy_header (resp_Header resp) (rw_Header (rw st))\<rparr>
      in case WriteHeader (StatusCode resp) w1 of
           Inl panic \<Rightarrow> st\<lparr>rw := w1, panicked := Some panic\<rparr>
         | Inr w2 \<Rightarrow>
             (let copied = io_Copy W (resp_Body resp) w2
              in case fst copied of
                   None \<Rightarrow> st\<lparr>rw := snd copied\<rparr>
                 | Some err \<Rightarrow>
                     slog ErrorLevel
                       (''['' @ Method r @ '' '' @ URL_Path r @ ''] HTTP 500 - Error copying response body: '' @ err)
                       (st\<lparr>rw := snd copied\<rparr>)))"

text \<open>
  \<^verbatim>\<open>proxyRequest\<close>. The \<^verbatim>\<open>DEV_MODE\<close> block is empty in the source. Putting the bytes read
  back into \<^verbatim>\<open>r.Body\<close> changes the inbound request only and is not part of the result.
\<close>

definition proxyRequest :: "World \<Rightarrow> Request \<Rightarrow> state \<Rightarrow> state" where
  "proxyRequest W r st =
     (let targetProxyURL = Values_Get (URL_Query r) ''proxyUrl'' in
      if targetProxyURL = '''' then
        logAndSendError W r 400 ''proxyUrl query parameter is required for all requests''
          ''proxyUrl query parameter is required for all requests'' st
      else
        let finalTargetURL = targetProxyURL;
            st1 = slog DebugLevel (''Proxying request for '' @ URL_Path r @ '' to '' @ finalTargetURL) st
        in case readBody (Body r) of
             Inl err \<Rightarrow>
               logAndSendError W r 500 (''Failed to read request body for proxy: '' @ err)
                 ''Failed to read request body'' st1
           | Inr reqBodyReader \<Rightarrow>
               (case http_NewRequest W (Method r) finalTargetURL reqBodyReader of
                  Inl err \<Rightarrow>
                    logAndSendError W r 500 (''Failed to create proxy request: '' @ err)
                      (''Failed to create proxy request: '' @ err) st1
                | Inr newReq \<Rightarrow>
                    let proxyReq = newReq\<lparr>out_Header := copy_header (Header r) (out_Header newReq)\<rparr>;
                        st2 = call_client W proxyReq st1
                    in case client_Do W proxyReq of
                         Inl err \<Rightarrow>
                           logAndSendError W r 500 (''Failed to forward request: '' @ err)
                             (''Failed to forward request: '' @ err)
                             (slog ErrorLevel (''Error forwarding proxy request: '' @ err) st2)
                       | Inr resp \<Rightarrow> relay_response W r resp st2))"

text \<open>
  \<^verbatim>\<open>ServeHTTP\<close>. The handlers of the UI shell, of the listing and of the static assets are
  taken as they come (\<open>serveIndex\<close>, \<open>serveSpecs\<close>, \<open>serveStaticFiles\<close>).
\<close>

record Pages =
  serveIndex :: "Request \<Rightarrow> state \<Rightarrow> state"
  serveSpecs :: "Request \<Rightarrow> state \<Rightarrow> state"
  serveStaticFiles :: "Request \<Rightarrow> state \<Rightarrow> state"

definition cors_headers :: "Header \<Rightarrow> Header" where
  "cors_headers h =
     Header_Set ''Access-Control-Expose-Headers'' ''Content-Length''
       (Header_Set ''Access-Control-Allow-Headers'' ''Content-Type, Authorization''
          (Header_Set ''Access-Control-Allow-Methods'' ''GET, POST, OPTIONS''
             (Header_Set ''Access-Control-Allow-Origin'' ''*'' h)))"

definition ServeHTTP :: "World \<Rightarrow> Pages \<Rightarrow> Request \<Rightarrow> state \<Rightarrow> state" where
  "ServeHTTP W P r st =
     (let st0 = st\<lparr>rw := (rw st)\<lparr>rw_Header := cors_headers (rw_Header (rw st))\<rparr>\<rparr> in
      if Method r = ''OPTIONS'' then
        (case WriteHeader 200 (rw st0) of
           Inl panic \<Rightarrow> st0\<lparr>panicked := Some panic\<rparr>
         | Inr w \<Rightarrow> st0\<lparr>rw := w\<rparr>)
      else
        let path = stripBasePath (srv st0) (URL_Path r);
            st1 = slog DebugLevel (''Handling request: '' @ Method r @ '' '' @ path) st0
        in if path = ''/'' \<or> path = ''/index.html'' then serveIndex P r st1
           else if path = ''/swagger-specs'' then serveSpecs P r st1
           else if prefix ''/api/'' path then serveIndividualSpec W r st1
           else if prefix ''/proxy/'' path then proxyRequest W r st1
           else serveStaticFiles P r st1)"

section \<open>Notions used in the statements\<close>

text \<open>
  The request \<^verbatim>\<open>proxyRequest\<close> hands to \<^verbatim>\<open>client.Do\<close> once the inbound body has been read as
  \<open>b\<close> and \<^verbatim>\<open>http.NewRequest\<close> has accepted method and target: the new request with the
  inbound header entries added.
\<close>

definition relayed :: "Request \<Rightarrow> string option \<Rightarrow> ClientRequest" where
  "relayed r b =
     \<lparr> out_Method = (if Method r = '''' then ''GET'' else Method r),
       out_URL = Values_Get (URL_Query r) ''proxyUrl'',
       out_Header = copy_header (Header r) Map.empty,
       out_Body = b \<rparr>"

text \<open>
  The fetch of a record's document succeeds with base URL \<open>metadataURL\<close> and document
  \<open>spec\<close>: the GET answers with status 200, its body decodes to \<open>spec\<close>, and the record's URL
  parses to \<open>metadataURL\<close>.
\<close>

definition fetched :: "World \<Rightarrow> APIMetadata \<Rightarrow> url \<Rightarrow> jobject \<Rightarrow> bool" where
  "fetched W metadata metadataURL spec \<longleftrightarrow>
     (case http_Get W (URL metadata) of
        Inl err \<Rightarrow> False
      | Inr resp \<Rightarrow> StatusCode resp = 200 \<and> json_Decode W (resp_Body resp) = Inr spec) \<and>
     url_Parse W (URL metadata) = Inr metadataURL"

subsection \<open>Reference resolution as RFC 3986 states it\<close>












section \<open>Scenarios\<close>

text \<open>
  Concrete inputs on which the theorems below are exercised: a fresh server, two healthy
  candidate records and one the poller has marked as failed; the documents behind them; and the
  answers of library and network on these inputs.
\<close>

definition server0 :: Server where
  "server0 = \<lparr> specs = Map.empty, basePath = '''', logger = [] \<rparr>"

definition petstore_candidate :: APIMetadata where
  "petstore_candidate =
     \<lparr> Name = ''petstore'', URL = ''http://spec.example/v2/swagger.json'', Title = ''Pet Store'',
       Version = ''1.0.0'', Description = ''Sample pet shop'', ResourceType = ''Service'',
       ResourceName = ''petstore-svc'', Namespace = ''shop'', LastUpdated = ''2024-05-01T10:00:00Z'',
       AllowedMethods = [''GET'', ''POST''], Error = '''' \<rparr>"

definition orders_candidate :: APIMetadata where
  "orders_candidate =
     \<lparr> Name = ''orders'', URL = ''http://orders.example/openapi.json'', Title = ''Orders'',
       Version = ''2.1'', Description = ''Order service'', ResourceType = ''Service'',
       ResourceName = ''orders-svc'', Namespace = ''shop'', LastUpdated = ''2024-05-01T10:00:00Z'',
       AllowedMethods = [], Error = ''spec endpoint unreachable'' \<rparr>"

definition inventory_candidate :: APIMetadata where
  "inventory_candidate =
     \<lparr> Name = ''inventory'', URL = ''http://inv.example/docs/openapi.json'', Title = ''Inventory'',
       Version = ''3.2'', Description = ''Stock levels'', ResourceType = ''Service'',
       ResourceName = ''inventory-svc'', Namespace = ''shop'', LastUpdated = ''2024-05-01T10:00:00Z'',
       AllowedMethods = [''GET''], Error = '''' \<rparr>"

definition registry_server :: Server where
  "registry_server = UpdateSpecs server0 [orders_candidate, petstore_candidate, inventory_candidate]"

definition fresh_writer :: ResponseWriter where
  "fresh_writer = \<lparr> rw_Header = Map.empty, rw_sending = NothingSent, rw_informational = [], rw_body = [] \<rparr>"

definition start :: "Server \<Rightarrow> state" where
  "start s = \<lparr> srv = s, rw = fresh_writer, issued = [], followed = [], panicked = None \<rparr>"

definition petstore_url :: url where
  "petstore_url = zero_url\<lparr>Scheme := ''http'', Host := ''spec.example'', Path := ''/v2/swagger.json''\<rparr>"

definition inventory_url :: url where
  "inventory_url = zero_url\<lparr>Scheme := ''http'', Host := ''inv.example'', Path := ''/docs/openapi.json''\<rparr>"

definition other_url :: url where
  "other_url = zero_url\<lparr>Scheme := ''https'', Host := ''other.example'', Path := ''/x''\<rparr>"

definition swagger2_body :: string where
  \<open>swagger2_body = ''{"swagger":"2.0","basePath":"/v2"}''\<close>

definition swagger2_doc :: jobject where
  "swagger2_doc = [''swagger'' \<mapsto> JString ''2.0'', ''basePath'' \<mapsto> JString ''/v2'']"

definition openapi3_body :: string where
  \<open>openapi3_body = ''{"openapi":"3.0.3","servers":[{"url":"api/v3"},{"url":"https://other.example/x"}]}''\<close>

definition openapi3_doc :: jobject where
  "openapi3_doc =
     [''openapi'' \<mapsto> JString ''3.0.3'',
      ''servers'' \<mapsto> JArray [JObject [''url'' \<mapsto> JString ''api/v3''],
                                JObject [''url'' \<mapsto> JString ''https://other.example/x'']]]"

definition bare_openapi3_doc :: jobject where
  "bare_openapi3_doc = [''openapi'' \<mapsto> JString ''3.1.0'']"

definition backend_response :: Response where
  \<open>backend_response =
     \<lparr> StatusCode = 201,
       resp_Header = [(''Content-Type'', [''application/json'']), (''Set-Cookie'', [''a=1'', ''b=2''])],
       resp_Body = ''{"id":7}'' \<rparr>\<close>

text \<open>
  The answers of \<^verbatim>\<open>net/url\<close> are given for the URLs of the scenario: the three absolute ones,
  and otherwise plain relative paths, resolved against a base whose path ends in a slash.
\<close>

definition scenario_World :: World where
  "scenario_World =
     \<lparr> url_Parse = (\<lambda>s. if s = ''http://spec.example/v2/swagger.json'' then Inr petstore_url
                         else if s = ''http://inv.example/docs/openapi.json'' then Inr inventory_url
                         else if s = ''https://other.example/x'' then Inr other_url
                         else Inr (zero_url\<lparr>Path := s\<rparr>)),
       url_ResolveReference = (\<lambda>base ref. zero_url\<lparr>Scheme := Scheme base, Host := Host base,
                                                      Path := Path base @ Path ref\<rparr>),
       url_String = (\<lambda>u. Scheme u @ ''://'' @ Host u @ Path u),
       json_Decode = (\<lambda>b. if b = swagger2_body then Inr swagger2_doc
                           else if b = openapi3_body then Inr openapi3_doc
                           else Inl ''invalid character'' ),
       http_Get = (\<lambda>u. if u = ''http://spec.example/v2/swagger.json''
                          then Inr \<lparr> StatusCode = 200, resp_Header = [], resp_Body = swagger2_body \<rparr>
                        else if u = ''http://inv.example/docs/openapi.json''
                          then Inr \<lparr> StatusCode = 200, resp_Header = [], resp_Body = openapi3_body \<rparr>
                        else Inl ''dial tcp: lookup failed: no such host''),
       NewRequest_error = (\<lambda>method target. None),
       client_Do = (\<lambda>req. if out_URL req = ''http://backend.example/pets''
                            then Inr backend_response
                            else Inl ''dial tcp: lookup failed: no such host''),
       redirects = (\<lambda>req. []),
       write_error = (\<lambda>p. None) \<rparr>"


text \<open>The same world with every fetch failing in the network.\<close>

definition unreachable_World :: World where
  "unreachable_World =
     scenario_World\<lparr>http_Get :=
       (\<lambda>u. Inl ''Get http://spec.example/v2/swagger.json: dial tcp 10.0.0.7:80: connect: connection refused'')\<rparr>"

text \<open>The same world with every body decoding to an OpenAPI 3.1 document without servers.\<close>

definition bare_World :: World where
  "bare_World = scenario_World\<lparr>json_Decode := (\<lambda>b. Inr bare_openapi3_doc)\<rparr>"

definition blank_Pages :: Pages where
  "blank_Pages = \<lparr> serveIndex = (\<lambda>r st. st), serveSpecs = (\<lambda>r st. st), serveStaticFiles = (\<lambda>r st. st) \<rparr>"

definition api_request :: "string \<Rightarrow> Request" where
  "api_request name =
     \<lparr> Method = ''GET'', URL_Path = ''/api/'' @ name, URL_Query = Map.empty, Header = [],
       Body = Some (Inr '''') \<rparr>"

definition pets_request :: Request where
  \<open>pets_request =
     \<lparr> Method = ''POST'',
       URL_Path = ''/proxy/pets'',
       URL_Query = [''proxyUrl'' \<mapsto> [''http://backend.example/pets''], ''verbose'' \<mapsto> [''1'']],
       Header = [(''Accept'', [''application/json'', ''text/plain'']), (''X-Trace'', [''abc''])],
       Body = Some (Inr ''{"name":"rex"}'') \<rparr>\<close>

definition anything_request :: Request where
  "anything_request =
     \<lparr> Method = ''GET'', URL_Path = ''/proxy/anything'', URL_Query = [''verbose'' \<mapsto> [''1'']],
       Header = [], Body = Some (Inr '''') \<rparr>"

text \<open>
  A backend that has moved: the \<^verbatim>\<open>POST\<close> to \<^verbatim>\<open>http://backend.example/pets\<close> is answered with
  302 and a new location; the client follows with a \<^verbatim>\<open>GET\<close> without body, as it does for a
  301, 302 or 303 answer to a method other than \<^verbatim>\<open>GET\<close> and \<^verbatim>\<open>HEAD\<close>, and returns the answer
  to that.
\<close>

definition moved_response :: Response where
  "moved_response =
     \<lparr> StatusCode = 302, resp_Header = [(''Location'', [''http://new.example/pets''])], resp_Body = '''' \<rparr>"

definition follow_up_request :: ClientRequest where
  "follow_up_request =
     \<lparr> out_Method = ''GET'', out_URL = ''http://new.example/pets'',
       out_Header = [''Accept'' \<mapsto> [''application/json'', ''text/plain''], ''X-Trace'' \<mapsto> [''abc''],
                     ''Referer'' \<mapsto> [''http://backend.example/pets'']],
       out_Body = None \<rparr>"

definition moved_World :: World where
  "moved_World =
     scenario_World\<lparr>redirects :=
       (\<lambda>req. if out_URL req = ''http://backend.example/pets''
              then [(moved_response, follow_up_request)] else [])\<rparr>"

text \<open>A backend that answers with a status line carrying the code 99.\<close>

definition odd_status_World :: World where
  "odd_status_World =
     scenario_World\<lparr>client_Do :=
       (\<lambda>req. Inr \<lparr> StatusCode = 99, resp_Header = [], resp_Body = ''odd'' \<rparr>)\<rparr>"


section \<open>The registry after UpdateSpecs\<close>

lemma find_append_case:
  "find P (xs @ ys) = (case find P xs of None \<Rightarrow> find P ys | Some x \<Rightarrow> Some x)"
  by (induction xs) auto

lemma last_accepted_Cons:
  "last_accepted (a # apis) n =
     (case last_accepted apis n of
        Some b \<Rightarrow> Some b
      | None \<Rightarrow> if Error a = '''' \<and> Name a = n then Some a else None)"
  by (simp add: last_accepted_def accepted_def find_append_case split: option.splits)

lemma UpdateSpecs_loop_lookup:
  "snd (UpdateSpecs_loop s m apis) n =
     (case last_accepted apis n of None \<Rightarrow> m n | Some a \<Rightarrow> Some (stored_metadata a))"
proof (induction apis arbitrary: s m)
  case Nil
  show ?case by (simp add: last_accepted_def accepted_def)
next
  case (Cons a apis)
  show ?case
  proof (cases "Error a = ''''")
    case True
    have "snd (UpdateSpecs_loop s m (a # apis)) n =
          snd (UpdateSpecs_loop s (m(Name a \<mapsto> stored_metadata a)) apis) n"
      using True by simp
    also have "\<dots> = (case last_accepted apis n of
                        None \<Rightarrow> (m(Name a \<mapsto> stored_metadata a)) n
                      | Some b \<Rightarrow> Some (stored_metadata b))"
      by (rule Cons.IH)
    also have "\<dots> = (case last_accepted (a # apis) n of
                        None \<Rightarrow> m n
                      | Some b \<Rightarrow> Some (stored_metadata b))"
      using True by (simp add: last_accepted_Cons split: option.splits)
    finally show ?thesis .
  next
    case False
    have "snd (UpdateSpecs_loop s m (a # apis)) n =
          snd (UpdateSpecs_loop
                 (logf WarnLevel (''Skipping API spec for '' @ Name a @ '' due to existing error: '' @ Error a) s)
                 m apis) n"
      using False by simp
    also have "\<dots> = (case last_accepted apis n of
                        None \<Rightarrow> m n
                      | Some b \<Rightarrow> Some (stored_metadata b))"
      by (rule Cons.IH)
    also have "\<dots> = (case last_accepted (a # apis) n of
                        None \<Rightarrow> m n
                      | Some b \<Rightarrow> Some (stored_metadata b))"
      using False by (simp add: last_accepted_Cons split: option.splits)
    finally show ?thesis .
  qed
qed

lemma UpdateSpecs_specs:
  "specs (UpdateSpecs s apis) = snd (UpdateSpecs_loop s Map.empty apis)"
  by (simp add: UpdateSpecs_def logf_def split: prod.splits)

lemma UpdateSpecs_lookup:
  "specs (UpdateSpecs s apis) n = map_option stored_metadata (last_accepted apis n)"
  by (simp add: UpdateSpecs_specs UpdateSpecs_loop_lookup split: option.splits)

lemma last_accepted_None:
  "last_accepted apis n = None \<longleftrightarrow> (\<forall>a \<in> set apis. Error a = '''' \<longrightarrow> Name a \<noteq> n)"
proof (induction apis)
  case Nil
  then show ?case by (simp add: last_accepted_def accepted_def)
next
  case (Cons b apis)
  then show ?case
    by (auto simp: last_accepted_Cons split: option.splits if_splits)
qed


lemma accepted_append: "accepted (xs @ ys) = accepted xs @ accepted ys"
  by (simp add: accepted_def)

lemma last_accepted_append:
  "last_accepted (xs @ ys) n =
     (case last_accepted ys n of Some b \<Rightarrow> Some b | None \<Rightarrow> last_accepted xs n)"
  by (simp add: last_accepted_def accepted_append find_append_case split: option.splits)

text \<open>
  A candidate without error wins its name when no later error-free candidate of the batch
  carries the same name.
\<close>

lemma last_accepted_winner:
  assumes "Error a = ''''" and "\<forall>b \<in> set ys. Error b = '''' \<longrightarrow> Name b \<noteq> Name a"
  shows "last_accepted (xs @ a # ys) (Name a) = Some a"
proof -
  have "last_accepted ys (Name a) = None"
    using assms(2) by (simp add: last_accepted_None)
  then have "last_accepted (a # ys) (Name a) = Some a"
    using assms(1) by (simp add: last_accepted_Cons)
  then show ?thesis by (simp add: last_accepted_append)
qed



text \<open>
  C7, as stated, fails: a stored record is not the incoming record field for field. For the
  healthy candidate of the scenario, accepted as the only one of its batch, the stored title
  is the candidate's name and the stored description is generated from namespace and resource
  name, whatever the poller supplied.
\<close>

theorem UpdateSpecs_rewrites_title_counterexample:
  "Error petstore_candidate = '''' \<and>
   specs (UpdateSpecs server0 [petstore_candidate]) (Name petstore_candidate) \<noteq> Some petstore_candidate \<and>
   Title petstore_candidate = ''Pet Store'' \<and>
   map_option Title (specs (UpdateSpecs server0 [petstore_candidate]) (Name petstore_candidate))
     = Some ''petstore'' \<and>
   Description petstore_candidate = ''Sample pet shop'' \<and>
   map_option Description (specs (UpdateSpecs server0 [petstore_candidate]) (Name petstore_candidate))
     = Some ''API from shop/petstore-svc''"
  by (simp add: UpdateSpecs_lookup last_accepted_def accepted_def petstore_candidate_def
      stored_metadata_def)

text \<open>
  C7, amended. For every error-free candidate that wins its name, the stored record has the
  candidate's name, URL, resource type, resource name, namespace, last-update stamp, allowed
  methods and (empty) error; its title is the candidate's name and its description is
  \<^verbatim>\<open>API from <namespace>/<resourceName>\<close>.
\<close>

theorem UpdateSpecs_stored_content:
  assumes "apis = xs @ a # ys" and "Error a = ''''"
    and "\<forall>b \<in> set ys. Error b = '''' \<longrightarrow> Name b \<noteq> Name a"
  shows "\<exists>stored. specs (UpdateSpecs s apis) (Name a) = Some stored \<and>
     Name stored = Name a \<and> URL stored = URL a \<and> ResourceType stored = ResourceType a \<and>
     ResourceName stored = ResourceName a \<and> Namespace stored = Namespace a \<and>
     LastUpdated stored = LastUpdated a \<and> AllowedMethods stored = AllowedMethods a \<and>
     Error stored = Error a \<and>
     Title stored = Name a \<and>
     Description stored = ''API from '' @ Namespace a @ ''/'' @ ResourceName a"
proof -
  have "last_accepted apis (Name a) = Some a"
    using assms last_accepted_winner [of a ys xs] by simp
  then have "specs (UpdateSpecs s apis) (Name a) = Some (stored_metadata a)"
    by (simp add: UpdateSpecs_lookup)
  then show ?thesis
    using assms(2) by (simp add: stored_metadata_def)
qed

theorem UpdateSpecs_stored_content_witness:
  "\<exists>stored. specs (UpdateSpecs server0 [orders_candidate, petstore_candidate]) ''petstore'' = Some stored \<and>
     Name stored = ''petstore'' \<and> URL stored = ''http://spec.example/v2/swagger.json'' \<and>
     ResourceType stored = ''Service'' \<and> ResourceName stored = ''petstore-svc'' \<and>
     Namespace stored = ''shop'' \<and> LastUpdated stored = ''2024-05-01T10:00:00Z'' \<and>
     AllowedMethods stored = [''GET'', ''POST''] \<and> Error stored = '''' \<and>
     Title stored = ''petstore'' \<and> Description stored = ''API from shop/petstore-svc''"
proof -
  have 1: "[orders_candidate, petstore_candidate] = [orders_candidate] @ petstore_candidate # []"
    by simp
  have 2: "Error petstore_candidate = ''''"
    by (simp add: petstore_candidate_def)
  have 3: "\<forall>b \<in> set []. Error b = '''' \<longrightarrow> Name b \<noteq> Name petstore_candidate"
    by simp
  show ?thesis
    using UpdateSpecs_stored_content [OF 1 2 3, of server0]
    by (simp add: petstore_candidate_def)
qed

section \<open>The response writer and header copies\<close>

lemma rw_status_None_iff: "rw_status w = None \<longleftrightarrow> rw_sending w = NothingSent"
  by (simp add: rw_status_def split: sending.splits)

lemma rw_status_HeaderSent [simp]:
  "rw_status (w\<lparr>rw_sending := HeaderSent c h\<rparr>) = Some c"
  "rw_status (w\<lparr>rw_sending := ConnectionLost c h err\<rparr>) = Some c"
  "rw_sent (w\<lparr>rw_sending := HeaderSent c h\<rparr>) = h"
  "rw_sent (w\<lparr>rw_sending := ConnectionLost c h err\<rparr>) = h"
  by (simp_all add: rw_status_def rw_sent_def)

lemma rw_status_other_fields [simp]:
  "rw_status (w\<lparr>rw_Header := hm\<rparr>) = rw_status w"
  "rw_status (w\<lparr>rw_body := b\<rparr>) = rw_status w"
  "rw_status (w\<lparr>rw_informational := i\<rparr>) = rw_status w"
  "rw_sent (w\<lparr>rw_body := b\<rparr>) = rw_sent w"
  by (simp_all add: rw_status_def rw_sent_def)

text \<open>Writing data that is not empty text, once a status that allows a body has been sent.\<close>

lemma Write_after_header:
  assumes "rw_sending w = HeaderSent c h" and "bodyAllowedForStatus c" and "p \<noteq> Text ''''"
  shows "rw_body (snd (Write W p w)) = rw_body w @ [p]"
    and "rw_status (snd (Write W p w)) = Some c"
    and "rw_sent (snd (Write W p w)) = h"
    and "rw_informational (snd (Write W p w)) = rw_informational w"
    and "fst (Write W p w) = write_error W p"
  using assms by (simp_all add: Write_def Let_def rw_status_def rw_sent_def split: option.splits)

lemma Write_body_refused:
  assumes "rw_sending w = HeaderSent c h" and "\<not> bodyAllowedForStatus c"
  shows "snd (Write W p w) = w"
  using assms by (simp add: Write_def Let_def)

text \<open>Once the connection is lost, or a status is sent already, \<^verbatim>\<open>http.Error\<close> adds no status.\<close>

lemma Write_lost:
  assumes "rw_sending w = ConnectionLost c h err"
  shows "rw_body (snd (Write W p w)) = rw_body w"
    and "rw_sending (snd (Write W p w)) = rw_sending w"
  using assms by (simp_all add: Write_def Let_def)

lemma http_Error_lost:
  assumes "rw_sending w = ConnectionLost c h err"
  shows "rw_body (snd (http_Error W msg code w)) = rw_body w"
    and "rw_status (snd (http_Error W msg code w)) = Some c"
    and "fst (http_Error W msg code w) = None"
  using assms
  by (simp_all add: http_Error_def WriteHeader_def Write_def Let_def rw_status_def)

text \<open>
  \<^verbatim>\<open>Write\<close> on a writer that has sent nothing: status 200 goes out first, with the header map
  as it is; the data is written whether or not the connection holds.
\<close>

lemma Write_fresh:
  assumes "rw_status w = None" and "p \<noteq> Text ''''"
  shows "rw_status (snd (Write W p (w\<lparr>rw_Header := h\<rparr>))) = Some 200"
    and "rw_body (snd (Write W p (w\<lparr>rw_Header := h\<rparr>))) = rw_body w @ [p]"
    and "rw_sent (snd (Write W p (w\<lparr>rw_Header := h\<rparr>))) = h"
    and "fst (Write W p (w\<lparr>rw_Header := h\<rparr>)) = write_error W p"
  using assms
  by (simp_all add: Write_def Let_def rw_status_None_iff bodyAllowedForStatus_def
      split: option.splits)




lemma http_Error_fresh:
  assumes "rw_status w = None" and "200 \<le> code" and "code \<le> 999" and "code \<noteq> 204" and "code \<noteq> 304"
  shows "rw_status (snd (http_Error W msg code w)) = Some code"
    and "rw_body (snd (http_Error W msg code w)) = rw_body w @ [Text (msg @ [CHR 0x0A])]"
    and "fst (http_Error W msg code w) = None"
  using assms
  by (simp_all add: http_Error_def WriteHeader_def Write_def Let_def rw_status_None_iff
      bodyAllowedForStatus_def split: option.splits)

lemma logAndSendError_simps:
  "issued (logAndSendError W r code internal userMsg st) = issued st"
  "followed (logAndSendError W r code internal userMsg st) = followed st"
  "rw (logAndSendError W r code internal userMsg st) = snd (http_Error W userMsg code (rw st))"
  "specs (srv (logAndSendError W r code internal userMsg st)) = specs (srv st)"
  "logger (srv (logAndSendError W r code internal userMsg st)) =
     logger (srv st) @
     [(ErrorLevel, ''['' @ Method r @ '' '' @ URL_Path r @ ''] HTTP '' @ fmt_d code @ '' - '' @ internal)]"
  "panicked (logAndSendError W r code internal userMsg st) =
     (case fst (http_Error W userMsg code (rw st)) of None \<Rightarrow> panicked st | Some panic \<Rightarrow> Some panic)"
  by (simp_all add: logAndSendError_def slog_def logf_def Let_def split: option.splits)

lemma slog_simps:
  "issued (slog lvl msg st) = issued st"
  "followed (slog lvl msg st) = followed st"
  "panicked (slog lvl msg st) = panicked st"
  "rw (slog lvl msg st) = rw st"
  "specs (srv (slog lvl msg st)) = specs (srv st)"
  "basePath (srv (slog lvl msg st)) = basePath (srv st)"
  "logger (srv (slog lvl msg st)) = logger (srv st) @ [(lvl, msg)]"
  by (simp_all add: slog_def logf_def)

lemma call_client_simps:
  "issued (call_client W req st) = issued st @ [req]"
  "followed (call_client W req st) = followed st @ redirects W req"
  "panicked (call_client W req st) = panicked st"
  "rw (call_client W req st) = rw st"
  "srv (call_client W req st) = srv st"
  by (simp_all add: call_client_def)

lemma Header_Values_Add:
  "Header_Values (Header_Add name v h) n = Header_Values h n @ (if n = name then [v] else [])"
  by (simp add: Header_Add_def Header_Values_def)

lemma Header_Values_add_values:
  "Header_Values (add_values name vs h) n = Header_Values h n @ (if n = name then vs else [])"
  by (induction vs arbitrary: h) (simp_all add: Header_Values_Add)

text \<open>
  Copying a header appends, under every name, the values of the entries of that name, in the
  order of the entries and of their values.
\<close>

lemma Header_Values_copy_header:
  "Header_Values (copy_header hs h) n =
     Header_Values h n @ concat (map snd (filter (\<lambda>e. fst e = n) hs))"
proof (induction hs arbitrary: h)
  case Nil
  show ?case by simp
next
  case (Cons e hs)
  obtain name vs where e: "e = (name, vs)" by (cases e)
  show ?case
    unfolding e by (simp add: Cons.IH Header_Values_add_values)
qed


lemma fmt_d_500: "fmt_d 500 = ''500''"
  by (simp add: fmt_d_def nat_decimal.simps digit_char_def)

lemma fmt_d_99: "fmt_d 99 = ''99''"
  by (simp add: fmt_d_def nat_decimal.simps digit_char_def)

lemma start_simps:
  "srv (start s) = s" "rw_status (rw (start s)) = None" "rw_body (rw (start s)) = []"
  "issued (start s) = []" "rw_Header (rw (start s)) = Map.empty"
  "followed (start s) = []" "panicked (start s) = None"
  by (simp_all add: start_def fresh_writer_def rw_status_def)

lemma registry_server_specs:
  "specs registry_server ''petstore'' = Some (stored_metadata petstore_candidate)"
  "specs registry_server ''inventory'' = Some (stored_metadata inventory_candidate)"
  "specs registry_server ''orders'' = None"
  by (simp_all add: registry_server_def UpdateSpecs_lookup last_accepted_def accepted_def
      orders_candidate_def petstore_candidate_def inventory_candidate_def)

lemma registry_server_basePath: "basePath registry_server = ''''"
  by (simp add: registry_server_def UpdateSpecs_def logf_def server0_def split: prod.splits)

lemma api_request_name: "TrimPrefix (URL_Path (api_request name)) ''/api/'' = name"
  by (simp add: api_request_def TrimPrefix_def)

section \<open>The proxy relay\<close>

lemma Values_Get_empty_iff:
  "Values_Get q key = '''' \<longleftrightarrow>
     q key = None \<or> q key = Some [] \<or> (\<exists>vs. q key = Some ('''' # vs))"
  by (auto simp: Values_Get_def split: option.splits list.splits)

lemma proxyRequest_missing:
  "Values_Get (URL_Query r) ''proxyUrl'' = '''' \<Longrightarrow>
   proxyRequest W r st =
     logAndSendError W r 400 ''proxyUrl query parameter is required for all requests''
       ''proxyUrl query parameter is required for all requests'' st"
  by (simp add: proxyRequest_def)

lemma relay_response_simps:
  "issued (relay_response W r resp st) = issued st"
  "followed (relay_response W r resp st) = followed st"
  by (simp_all add: relay_response_def Let_def slog_simps split: sum.splits option.splits)

text \<open>What \<^verbatim>\<open>proxyRequest\<close> does once it has built the outbound request.\<close>

lemma proxyRequest_forwarded:
  assumes "Values_Get (URL_Query r) ''proxyUrl'' \<noteq> ''''"
    and "readBody (Body r) = Inr b"
    and "NewRequest_error W (Method r) (Values_Get (URL_Query r) ''proxyUrl'') = None"
  shows "proxyRequest W r st =
     (case client_Do W (relayed r b) of
        Inl err \<Rightarrow>
          logAndSendError W r 500 (''Failed to forward request: '' @ err)
            (''Failed to forward request: '' @ err)
            (slog ErrorLevel (''Error forwarding proxy request: '' @ err)
               (call_client W (relayed r b)
                  (slog DebugLevel
                     (''Proxying request for '' @ URL_Path r @ '' to '' @ Values_Get (URL_Query r) ''proxyUrl'')
                     st)))
      | Inr resp \<Rightarrow>
          relay_response W r resp
            (call_client W (relayed r b)
               (slog DebugLevel
                  (''Proxying request for '' @ URL_Path r @ '' to '' @ Values_Get (URL_Query r) ''proxyUrl'')
                  st)))"
  using assms
  by (cases "Method r = ''''")
     (simp_all add: proxyRequest_def http_NewRequest_def relayed_def Let_def split: sum.splits)

lemma proxyRequest_issued:
  assumes "Values_Get (URL_Query r) ''proxyUrl'' \<noteq> ''''"
    and "readBody (Body r) = Inr b"
    and "NewRequest_error W (Method r) (Values_Get (URL_Query r) ''proxyUrl'') = None"
  shows "issued (proxyRequest W r st) = issued st @ [relayed r b]"
    and "followed (proxyRequest W r st) = followed st @ redirects W (relayed r b)"
  unfolding proxyRequest_forwarded [OF assms]
  by (simp_all add: relay_response_simps logAndSendError_simps slog_simps call_client_simps
      split: sum.splits)

lemma proxyRequest_response:
  assumes "Values_Get (URL_Query r) ''proxyUrl'' \<noteq> ''''"
    and "readBody (Body r) = Inr b"
    and "NewRequest_error W (Method r) (Values_Get (URL_Query r) ''proxyUrl'') = None"
    and "client_Do W (relayed r b) = Inr resp"
  shows "rw (proxyRequest W r st) = rw (relay_response W r resp st)"
    and "panicked (proxyRequest W r st) = panicked (relay_response W r resp st)"
  unfolding proxyRequest_forwarded [OF assms(1-3)] assms(4)
  by (simp_all add: relay_response_def Let_def slog_def call_client_def
      split: sum.splits option.splits)

lemma WriteHeader_fresh:
  assumes "rw_sending w = NothingSent"
  shows "code < 100 \<or> 999 < code \<Longrightarrow>
           WriteHeader code w = Inl (''invalid WriteHeader code '' @ fmt_d code)"
    and "code = 101 \<or> (200 \<le> code \<and> code \<le> 999) \<Longrightarrow>
           WriteHeader code w = Inr (w\<lparr>rw_sending := HeaderSent code (rw_Header w)\<rparr>)"
    and "100 \<le> code \<Longrightarrow> code \<le> 199 \<Longrightarrow> code \<noteq> 101 \<Longrightarrow>
           WriteHeader code w = Inr (w\<lparr>rw_informational := rw_informational w @ [(code, rw_Header w)]\<rparr>)"
  using assms by (auto simp: WriteHeader_def)

lemma io_Copy_after_header:
  assumes "rw_sending w = HeaderSent c h"
  shows "rw_body (snd (io_Copy W bytes w)) =
           rw_body w @ (if bytes = '''' \<or> \<not> bodyAllowedForStatus c then [] else [Text bytes])"
    and "rw_status (snd (io_Copy W bytes w)) = Some c"
    and "rw_sent (snd (io_Copy W bytes w)) = h"
  using assms
  by (simp_all add: io_Copy_def Write_def Let_def rw_status_def rw_sent_def split: option.splits)

lemma io_Copy_fresh:
  assumes "rw_sending w = NothingSent"
  shows "rw_body (snd (io_Copy W bytes w)) = rw_body w @ (if bytes = '''' then [] else [Text bytes])"
    and "rw_status (snd (io_Copy W bytes w)) = (if bytes = '''' then None else Some 200)"
    and "rw_informational (snd (io_Copy W bytes w)) = rw_informational w"
  using assms
  by (simp_all add: io_Copy_def Write_def Let_def rw_status_def bodyAllowedForStatus_def
      split: option.splits)

lemma relay_response_written:
  assumes "WriteHeader (StatusCode resp)
             ((rw st)\<lparr>rw_Header := copy_header (resp_Header resp) (rw_Header (rw st))\<rparr>) = Inr w2"
  shows "rw (relay_response W r resp st) = snd (io_Copy W (resp_Body resp) w2)"
    and "panicked (relay_response W r resp st) = panicked st"
  using assms by (simp_all add: relay_response_def Let_def slog_def split: option.splits)

text \<open>
  The relay of a response on a writer that has sent nothing, by the upstream status: a status
  outside 100 to 999 makes \<^verbatim>\<open>WriteHeader\<close> panic, and nothing is sent.
\<close>

lemma relay_response_panics:
  assumes "rw_status (rw st) = None" and "StatusCode resp < 100 \<or> 999 < StatusCode resp"
  shows "panicked (relay_response W r resp st) =
           Some (''invalid WriteHeader code '' @ fmt_d (StatusCode resp))"
    and "rw_status (rw (relay_response W r resp st)) = None"
    and "rw_body (rw (relay_response W r resp st)) = rw_body (rw st)"
proof -
  let ?w1 = "(rw st)\<lparr>rw_Header := copy_header (resp_Header resp) (rw_Header (rw st))\<rparr>"
  have "rw_sending ?w1 = NothingSent"
    using assms(1) by (simp add: rw_status_None_iff)
  then have e: "WriteHeader (StatusCode resp) ?w1 =
                  Inl (''invalid WriteHeader code '' @ fmt_d (StatusCode resp))"
    using assms(2) by (rule WriteHeader_fresh(1))
  show "panicked (relay_response W r resp st) =
           Some (''invalid WriteHeader code '' @ fmt_d (StatusCode resp))"
    by (simp add: relay_response_def Let_def e)
  show "rw_status (rw (relay_response W r resp st)) = None"
    using assms(1) by (simp add: relay_response_def Let_def e)
  show "rw_body (rw (relay_response W r resp st)) = rw_body (rw st)"
    by (simp add: relay_response_def Let_def e)
qed

text \<open>
  Status 101 and the statuses from 200 to 999 are sent as they are, with the header map as it
  is after the copy, before any of the body; the body follows unless it is empty or the status
  allows none.
\<close>

lemma relay_response_status:
  assumes "rw_status (rw st) = None"
    and "StatusCode resp = 101 \<or> (200 \<le> StatusCode resp \<and> StatusCode resp \<le> 999)"
  shows "rw_status (rw (relay_response W r resp st)) = Some (StatusCode resp)"
    and "rw_sent (rw (relay_response W r resp st)) = copy_header (resp_Header resp) (rw_Header (rw st))"
    and "rw_body (rw (relay_response W r resp st)) =
           rw_body (rw st) @
           (if resp_Body resp = '''' \<or> StatusCode resp = 101 \<or> StatusCode resp = 204 \<or>
               StatusCode resp = 304
            then [] else [Text (resp_Body resp)])"
    and "panicked (relay_response W r resp st) = panicked st"
proof -
  let ?h = "copy_header (resp_Header resp) (rw_Header (rw st))"
  let ?w1 = "(rw st)\<lparr>rw_Header := ?h\<rparr>"
  let ?w2 = "?w1\<lparr>rw_sending := HeaderSent (StatusCode resp) (rw_Header ?w1)\<rparr>"
  have "rw_sending ?w1 = NothingSent"
    using assms(1) by (simp add: rw_status_None_iff)
  then have e: "WriteHeader (StatusCode resp) ?w1 = Inr ?w2"
    using assms(2) by (rule WriteHeader_fresh(2))
  have s: "rw_sending ?w2 = HeaderSent (StatusCode resp) ?h"
    by simp
  have a: "bodyAllowedForStatus (StatusCode resp) \<longleftrightarrow>
             \<not> (StatusCode resp = 101 \<or> StatusCode resp = 204 \<or> StatusCode resp = 304)"
    using assms(2) by (auto simp: bodyAllowedForStatus_def)
  show "rw_status (rw (relay_response W r resp st)) = Some (StatusCode resp)"
    unfolding relay_response_written(1) [OF e] using s by (rule io_Copy_after_header(2))
  show "rw_sent (rw (relay_response W r resp st)) = ?h"
    unfolding relay_response_written(1) [OF e] using s by (rule io_Copy_after_header(3))
  show "rw_body (rw (relay_response W r resp st)) =
           rw_body (rw st) @
           (if resp_Body resp = '''' \<or> StatusCode resp = 101 \<or> StatusCode resp = 204 \<or>
               StatusCode resp = 304
            then [] else [Text (resp_Body resp)])"
    unfolding relay_response_written(1) [OF e] io_Copy_after_header(1) [OF s] a by simp
  show "panicked (relay_response W r resp st) = panicked st"
    using e by (rule relay_response_written(2))
qed

text \<open>
  A status from 100 to 199 other than 101 goes out as an informational response; the body,
  if there is one, follows with status 200.
\<close>

lemma relay_response_informational:
  assumes "rw_status (rw st) = None"
    and "100 \<le> StatusCode resp" and "StatusCode resp \<le> 199" and "StatusCode resp \<noteq> 101"
  shows "map fst (rw_informational (rw (relay_response W r resp st))) =
           map fst (rw_informational (rw st)) @ [StatusCode resp]"
    and "rw_status (rw (relay_response W r resp st)) = (if resp_Body resp = '''' then None else Some 200)"
    and "rw_body (rw (relay_response W r resp st)) =
           rw_body (rw st) @ (if resp_Body resp = '''' then [] else [Text (resp_Body resp)])"
    and "panicked (relay_response W r resp st) = panicked st"
proof -
  let ?h = "copy_header (resp_Header resp) (rw_Header (rw st))"
  let ?w1 = "(rw st)\<lparr>rw_Header := ?h\<rparr>"
  let ?w2 = "?w1\<lparr>rw_informational := rw_informational ?w1 @ [(StatusCode resp, rw_Header ?w1)]\<rparr>"
  have "rw_sending ?w1 = NothingSent"
    using assms(1) by (simp add: rw_status_None_iff)
  then have e: "WriteHeader (StatusCode resp) ?w1 = Inr ?w2"
    using assms(2-4) by (rule WriteHeader_fresh(3))
  have s: "rw_sending ?w2 = NothingSent"
    using assms(1) by (simp add: rw_status_None_iff)
  show "map fst (rw_informational (rw (relay_response W r resp st))) =
           map fst (rw_informational (rw st)) @ [StatusCode resp]"
    unfolding relay_response_written(1) [OF e] io_Copy_fresh(3) [OF s] by simp
  show "rw_status (rw (relay_response W r resp st)) = (if resp_Body resp = '''' then None else Some 200)"
    unfolding relay_response_written(1) [OF e] using s by (rule io_Copy_fresh(2))
  show "rw_body (rw (relay_response W r resp st)) =
           rw_body (rw st) @ (if resp_Body resp = '''' then [] else [Text (resp_Body resp)])"
    unfolding relay_response_written(1) [OF e] io_Copy_fresh(1) [OF s] by simp
  show "panicked (relay_response W r resp st) = panicked st"
    using e by (rule relay_response_written(2))
qed

lemma proxy_prefix_routes:
  assumes "prefix ''/proxy/'' path"
  shows "path \<noteq> ''/''" "path \<noteq> ''/index.html''" "path \<noteq> ''/swagger-specs''"
    "\<not> prefix ''/api/'' path"
  using assms by (auto simp: prefix_def)

lemma ServeHTTP_proxy:
  assumes "Method r \<noteq> ''OPTIONS''"
    and "prefix ''/proxy/'' (stripBasePath (srv st) (URL_Path r))"
  shows "ServeHTTP W P r st =
     proxyRequest W r
       (slog DebugLevel (''Handling request: '' @ Method r @ '' '' @ stripBasePath (srv st) (URL_Path r))
          (st\<lparr>rw := (rw st)\<lparr>rw_Header := cors_headers (rw_Header (rw st))\<rparr>\<rparr>))"
  using assms proxy_prefix_routes [OF assms(2)]
  by (simp add: ServeHTTP_def Let_def)

lemma pets_request_facts:
  "Values_Get (URL_Query pets_request) ''proxyUrl'' \<noteq> ''''"
  "Values_Get (URL_Query pets_request) ''proxyUrl'' = ''http://backend.example/pets''"
  \<open>readBody (Body pets_request) = Inr (Some ''{"name":"rex"}'')\<close>
  "Method pets_request \<noteq> ''''"
  "Method pets_request = ''POST''"
  by (simp_all add: pets_request_def Values_Get_def readBody_def)

text \<open>
  C9. A request that is not an \<^verbatim>\<open>OPTIONS\<close> request, whose path (after the base path is
  stripped) begins with \<^verbatim>\<open>/proxy/\<close>, and whose \<^verbatim>\<open>proxyUrl\<close> query parameter is absent or empty,
  is answered by \<^verbatim>\<open>ServeHTTP\<close> with status 400 and the message that the parameter is required;
  no request is sent out.
\<close>

theorem ServeHTTP_proxy_requires_target:
  assumes "Method r \<noteq> ''OPTIONS''"
    and "prefix ''/proxy/'' (stripBasePath (srv st) (URL_Path r))"
    and "URL_Query r ''proxyUrl'' = None \<or> URL_Query r ''proxyUrl'' = Some [] \<or>
         (\<exists>vs. URL_Query r ''proxyUrl'' = Some ('''' # vs))"
    and "rw_status (rw st) = None"
  shows "rw_status (rw (ServeHTTP W P r st)) = Some 400 \<and>
         rw_body (rw (ServeHTTP W P r st)) =
           rw_body (rw st) @
           [Text (''proxyUrl query parameter is required for all requests'' @ [CHR 0x0A])] \<and>
         issued (ServeHTTP W P r st) = issued st"
proof -
  have v: "Values_Get (URL_Query r) ''proxyUrl'' = ''''"
    using assms(3) by (simp add: Values_Get_empty_iff)
  let ?st1 = "slog DebugLevel (''Handling request: '' @ Method r @ '' '' @ stripBasePath (srv st) (URL_Path r))
          (st\<lparr>rw := (rw st)\<lparr>rw_Header := cors_headers (rw_Header (rw st))\<rparr>\<rparr>)"
  have e: "ServeHTTP W P r st =
       logAndSendError W r 400 ''proxyUrl query parameter is required for all requests''
         ''proxyUrl query parameter is required for all requests'' ?st1"
    unfolding ServeHTTP_proxy [OF assms(1,2)] using v by (rule proxyRequest_missing)
  have f: "rw_status (rw ?st1) = None" "rw_body (rw ?st1) = rw_body (rw st)" "issued ?st1 = issued st"
    using assms(4) by (simp_all add: slog_simps)
  have c: "(200::int) \<le> 400" "(400::int) \<le> 999" "(400::int) \<noteq> 204" "(400::int) \<noteq> 304"
    by simp_all
  show ?thesis
    unfolding e logAndSendError_simps http_Error_fresh [OF f(1) c] f by simp
qed

text \<open>The spec's scenario: \<^verbatim>\<open>/proxy/anything\<close> without a \<^verbatim>\<open>proxyUrl\<close> parameter.\<close>

theorem ServeHTTP_proxy_requires_target_witness:
  "rw_status (rw (ServeHTTP scenario_World blank_Pages anything_request (start registry_server))) = Some 400 \<and>
   rw_body (rw (ServeHTTP scenario_World blank_Pages anything_request (start registry_server))) =
     [Text (''proxyUrl query parameter is required for all requests'' @ [CHR 0x0A])] \<and>
   issued (ServeHTTP scenario_World blank_Pages anything_request (start registry_server)) = []"
proof -
  let ?st = "start registry_server"
  have 1: "Method anything_request \<noteq> ''OPTIONS''"
    by (simp add: anything_request_def)
  have 2: "prefix ''/proxy/'' (stripBasePath (srv ?st) (URL_Path anything_request))"
    by (simp add: stripBasePath_def start_simps registry_server_basePath anything_request_def)
  have 3: "URL_Query anything_request ''proxyUrl'' = None \<or>
           URL_Query anything_request ''proxyUrl'' = Some [] \<or>
           (\<exists>vs. URL_Query anything_request ''proxyUrl'' = Some ('''' # vs))"
    by (simp add: anything_request_def)
  have 4: "rw_status (rw ?st) = None"
    by (simp add: start_simps)
  show ?thesis
    using ServeHTTP_proxy_requires_target [OF 1 2 3 4, of scenario_World blank_Pages]
    by (simp add: start_simps)
qed

text \<open>
  C8, as stated, fails in two ways. A backend that has moved: the \<^verbatim>\<open>POST\<close> the relay hands
  to the client is answered with 302, and the client, on its own, sends a second request to
  the new location, with the method \<^verbatim>\<open>GET\<close> and without the body; the 302 response is not
  relayed, the caller gets the 201 that answers the second request. A backend that answers
  with the status code 99: \<^verbatim>\<open>WriteHeader\<close> panics, and neither status nor body is relayed.
\<close>

theorem proxyRequest_not_verbatim_counterexample:
  \<open>issued (proxyRequest moved_World pets_request (start server0)) =
     [relayed pets_request (Some ''{"name":"rex"}'')] \<and>
   followed (proxyRequest moved_World pets_request (start server0)) =
     [(moved_response, follow_up_request)] \<and>
   Method pets_request = ''POST'' \<and>
   out_Method follow_up_request = ''GET'' \<and>
   out_Body follow_up_request = None \<and>
   StatusCode moved_response = 302 \<and>
   rw_status (rw (proxyRequest moved_World pets_request (start server0))) = Some 201 \<and>
   client_Do odd_status_World (relayed pets_request (Some ''{"name":"rex"}'')) =
     Inr \<lparr> StatusCode = 99, resp_Header = [], resp_Body = ''odd'' \<rparr> \<and>
   rw_status (rw (proxyRequest odd_status_World pets_request (start server0))) = None \<and>
   rw_body (rw (proxyRequest odd_status_World pets_request (start server0))) = [] \<and>
   panicked (proxyRequest odd_status_World pets_request (start server0)) =
     Some ''invalid WriteHeader code 99''\<close>
proof -
  let ?st = "start server0"
  let ?req = \<open>relayed pets_request (Some ''{"name":"rex"}'')\<close>
  let ?odd = "\<lparr> StatusCode = 99, resp_Header = [], resp_Body = ''odd'' \<rparr>"
  have u: "out_URL ?req = ''http://backend.example/pets''"
    by (simp add: relayed_def pets_request_facts(2))
  have n: "NewRequest_error moved_World (Method pets_request)
             (Values_Get (URL_Query pets_request) ''proxyUrl'') = None"
    "NewRequest_error odd_status_World (Method pets_request)
             (Values_Get (URL_Query pets_request) ''proxyUrl'') = None"
    by (simp_all add: moved_World_def odd_status_World_def scenario_World_def)
  have f: "rw_status (rw ?st) = None"
    by (simp add: start_simps)
  have d: "client_Do moved_World ?req = Inr backend_response"
    by (simp add: moved_World_def scenario_World_def u)
  have o: "client_Do odd_status_World ?req = Inr ?odd"
    by (simp add: odd_status_World_def)
  have "issued (proxyRequest moved_World pets_request ?st) = [?req]"
    unfolding proxyRequest_issued(1) [OF pets_request_facts(1,3) n(1)] by (simp add: start_simps)
  moreover have "followed (proxyRequest moved_World pets_request ?st) =
                   [(moved_response, follow_up_request)]"
    unfolding proxyRequest_issued(2) [OF pets_request_facts(1,3) n(1)]
    by (simp add: start_simps moved_World_def u)
  moreover have "rw_status (rw (proxyRequest moved_World pets_request ?st)) = Some 201"
    unfolding proxyRequest_response(1) [OF pets_request_facts(1,3) n(1) d]
    using relay_response_status(1) [OF f, of backend_response moved_World pets_request]
    by (simp add: backend_response_def)
  moreover have "rw_status (rw (proxyRequest odd_status_World pets_request ?st)) = None"
    unfolding proxyRequest_response(1) [OF pets_request_facts(1,3) n(2) o]
    using f by (rule relay_response_panics(2)) simp
  moreover have "rw_body (rw (proxyRequest odd_status_World pets_request ?st)) = []"
    unfolding proxyRequest_response(1) [OF pets_request_facts(1,3) n(2) o]
    using relay_response_panics(3) [OF f, of ?odd odd_status_World pets_request]
    by (simp add: start_simps)
  moreover have "panicked (proxyRequest odd_status_World pets_request ?st) =
                   Some ''invalid WriteHeader code 99''"
    unfolding proxyRequest_response(2) [OF pets_request_facts(1,3) n(2) o]
    using relay_response_panics(1) [OF f, of ?odd odd_status_World pets_request]
    by (simp add: fmt_d_99)
  ultimately show ?thesis
    using o by (simp add: pets_request_facts(5) follow_up_request_def moved_response_def)
qed

text \<open>
  C8, amended. When \<^verbatim>\<open>proxyRequest\<close> forwards a request (a target is given, the inbound body
  was read, \<^verbatim>\<open>http.NewRequest\<close> accepted method and target), it hands exactly one request to
  the HTTP client: it has the inbound method, the target as URL, the inbound body, and under
  every header name exactly the inbound values of that name, in order, duplicates included.
  The client follows redirects on its own: the requests it sends after that one are its
  choice and the redirect responses are not relayed. What is relayed is the response the
  client returns in the end, by its status:
  \<^item> outside 100 to 999, \<^verbatim>\<open>WriteHeader\<close> panics and neither status nor body is sent;
  \<^item> 101, or from 200 to 999: the status is sent, before the body; the header sent has, under
    every name, the values already set on the writer followed by the upstream values of that
    name, in order, duplicates included; the body sent is the upstream body, except that with
    101, 204 and 304 no body is sent;
  \<^item> from 100 to 199 other than 101: the status goes out as an informational response, and
    the upstream body, unless empty, follows with status 200.
\<close>

theorem proxyRequest_relays:
  assumes "Values_Get (URL_Query r) ''proxyUrl'' \<noteq> ''''"
    and "readBody (Body r) = Inr b"
    and "NewRequest_error W (Method r) (Values_Get (URL_Query r) ''proxyUrl'') = None"
    and "Method r \<noteq> ''''"
    and "rw_status (rw st) = None"
  shows "\<exists>req. issued (proxyRequest W r st) = issued st @ [req] \<and>
           out_Method req = Method r \<and>
           out_URL req = Values_Get (URL_Query r) ''proxyUrl'' \<and>
           out_Body req = b \<and>
           (\<forall>n. Header_Values (out_Header req) n =
                  concat (map snd (filter (\<lambda>e. fst e = n) (Header r)))) \<and>
           followed (proxyRequest W r st) = followed st @ redirects W req \<and>
           (\<forall>resp. client_Do W req = Inr resp \<longrightarrow>
              (StatusCode resp < 100 \<or> 999 < StatusCode resp \<longrightarrow>
                 panicked (proxyRequest W r st) =
                   Some (''invalid WriteHeader code '' @ fmt_d (StatusCode resp)) \<and>
                 rw_status (rw (proxyRequest W r st)) = None \<and>
                 rw_body (rw (proxyRequest W r st)) = rw_body (rw st)) \<and>
              (StatusCode resp = 101 \<or> (200 \<le> StatusCode resp \<and> StatusCode resp \<le> 999) \<longrightarrow>
                 panicked (proxyRequest W r st) = panicked st \<and>
                 rw_status (rw (proxyRequest W r st)) = Some (StatusCode resp) \<and>
                 (\<forall>n. Header_Values (rw_sent (rw (proxyRequest W r st))) n =
                        Header_Values (rw_Header (rw st)) n @
                        concat (map snd (filter (\<lambda>e. fst e = n) (resp_Header resp)))) \<and>
                 rw_body (rw (proxyRequest W r st)) =
                   rw_body (rw st) @
                   (if resp_Body resp = '''' \<or> StatusCode resp = 101 \<or> StatusCode resp = 204 \<or>
                       StatusCode resp = 304
                    then [] else [Text (resp_Body resp)])) \<and>
              (100 \<le> StatusCode resp \<and> StatusCode resp \<le> 199 \<and> StatusCode resp \<noteq> 101 \<longrightarrow>
                 panicked (proxyRequest W r st) = panicked st \<and>
                 map fst (rw_informational (rw (proxyRequest W r st))) =
                   map fst (rw_informational (rw st)) @ [StatusCode resp] \<and>
                 rw_status (rw (proxyRequest W r st)) =
                   (if resp_Body resp = '''' then None else Some 200) \<and>
                 rw_body (rw (proxyRequest W r st)) =
                   rw_body (rw st) @ (if resp_Body resp = '''' then [] else [Text (resp_Body resp)])))"
proof (intro exI [of _ "relayed r b"] conjI allI impI)
  show "issued (proxyRequest W r st) = issued st @ [relayed r b]"
    using assms(1-3) by (rule proxyRequest_issued(1))
  show "followed (proxyRequest W r st) = followed st @ redirects W (relayed r b)"
    using assms(1-3) by (rule proxyRequest_issued(2))
  show "out_Method (relayed r b) = Method r"
    using assms(4) by (simp add: relayed_def)
  show "out_URL (relayed r b) = Values_Get (URL_Query r) ''proxyUrl''"
    by (simp add: relayed_def)
  show "out_Body (relayed r b) = b"
    by (simp add: relayed_def)
  show "Header_Values (out_Header (relayed r b)) n =
          concat (map snd (filter (\<lambda>e. fst e = n) (Header r)))" for n
    by (simp add: relayed_def Header_Values_copy_header) (simp add: Header_Values_def)
next
  fix resp
  assume d: "client_Do W (relayed r b) = Inr resp"
  note R = proxyRequest_response [OF assms(1-3) d, of st]
  {
    assume c: "StatusCode resp < 100 \<or> 999 < StatusCode resp"
    show "panicked (proxyRequest W r st) =
            Some (''invalid WriteHeader code '' @ fmt_d (StatusCode resp))"
      unfolding R using assms(5) c by (rule relay_response_panics(1))
    show "rw_status (rw (proxyRequest W r st)) = None"
      unfolding R using assms(5) c by (rule relay_response_panics(2))
    show "rw_body (rw (proxyRequest W r st)) = rw_body (rw st)"
      unfolding R using assms(5) c by (rule relay_response_panics(3))
  }
  {
    assume c: "StatusCode resp = 101 \<or> (200 \<le> StatusCode resp \<and> StatusCode resp \<le> 999)"
    show "panicked (proxyRequest W r st) = panicked st"
      unfolding R using assms(5) c by (rule relay_response_status(4))
    show "rw_status (rw (proxyRequest W r st)) = Some (StatusCode resp)"
      unfolding R using assms(5) c by (rule relay_response_status(1))
    show "rw_body (rw (proxyRequest W r st)) =
            rw_body (rw st) @
            (if resp_Body resp = '''' \<or> StatusCode resp = 101 \<or> StatusCode resp = 204 \<or>
                StatusCode resp = 304
             then [] else [Text (resp_Body resp)])"
      unfolding R using assms(5) c by (rule relay_response_status(3))
    show "Header_Values (rw_sent (rw (proxyRequest W r st))) n =
            Header_Values (rw_Header (rw st)) n @
            concat (map snd (filter (\<lambda>e. fst e = n) (resp_Header resp)))" for n
      unfolding R relay_response_status(2) [OF assms(5) c] by (rule Header_Values_copy_header)
  }
  {
    assume "100 \<le> StatusCode resp \<and> StatusCode resp \<le> 199 \<and> StatusCode resp \<noteq> 101"
    then have c: "100 \<le> StatusCode resp" "StatusCode resp \<le> 199" "StatusCode resp \<noteq> 101"
      by simp_all
    show "panicked (proxyRequest W r st) = panicked st"
      unfolding R using assms(5) c by (rule relay_response_informational(4))
    show "map fst (rw_informational (rw (proxyRequest W r st))) =
            map fst (rw_informational (rw st)) @ [StatusCode resp]"
      unfolding R using assms(5) c by (rule relay_response_informational(1))
    show "rw_status (rw (proxyRequest W r st)) = (if resp_Body resp = '''' then None else Some 200)"
      unfolding R using assms(5) c by (rule relay_response_informational(2))
    show "rw_body (rw (proxyRequest W r st)) =
            rw_body (rw st) @ (if resp_Body resp = '''' then [] else [Text (resp_Body resp)])"
      unfolding R using assms(5) c by (rule relay_response_informational(3))
  }
qed

text \<open>
  A \<^verbatim>\<open>POST\<close> with two \<^verbatim>\<open>Accept\<close> values and a body, relayed to a backend that answers 201
  with two cookies.
\<close>

theorem proxyRequest_relays_witness:
  \<open>\<exists>req. issued (proxyRequest scenario_World pets_request (start server0)) = [req] \<and>
     out_Method req = ''POST'' \<and>
     out_Body req = Some ''{"name":"rex"}'' \<and>
     Header_Values (out_Header req) ''Accept'' = [''application/json'', ''text/plain''] \<and>
     Header_Values (out_Header req) ''X-Trace'' = [''abc''] \<and>
     followed (proxyRequest scenario_World pets_request (start server0)) = [] \<and>
     panicked (proxyRequest scenario_World pets_request (start server0)) = None \<and>
     rw_status (rw (proxyRequest scenario_World pets_request (start server0))) = Some 201 \<and>
     Header_Values (rw_sent (rw (proxyRequest scenario_World pets_request (start server0)))) ''Set-Cookie''
       = [''a=1'', ''b=2''] \<and>
     rw_body (rw (proxyRequest scenario_World pets_request (start server0))) = [Text ''{"id":7}'']\<close>
proof -
  let ?st = "start server0"
  let ?st' = "proxyRequest scenario_World pets_request ?st"
  have 3: "NewRequest_error scenario_World (Method pets_request)
             (Values_Get (URL_Query pets_request) ''proxyUrl'') = None"
    by (simp add: scenario_World_def)
  have 5: "rw_status (rw ?st) = None"
    by (simp add: start_simps)
  from proxyRequest_relays [OF pets_request_facts(1,3) 3 pets_request_facts(4) 5]
  obtain req where
    i: "issued ?st' = issued ?st @ [req]"
    and m: "out_Method req = Method pets_request"
    and u: "out_URL req = Values_Get (URL_Query pets_request) ''proxyUrl''"
    and b: \<open>out_Body req = Some ''{"name":"rex"}''\<close>
    and h: "\<forall>n. Header_Values (out_Header req) n =
                  concat (map snd (filter (\<lambda>e. fst e = n) (Header pets_request)))"
    and fo: "followed ?st' = followed ?st @ redirects scenario_World req"
    and resp: "\<forall>resp. client_Do scenario_World req = Inr resp \<longrightarrow>
              (StatusCode resp < 100 \<or> 999 < StatusCode resp \<longrightarrow>
                 panicked ?st' = Some (''invalid WriteHeader code '' @ fmt_d (StatusCode resp)) \<and>
                 rw_status (rw ?st') = None \<and>
                 rw_body (rw ?st') = rw_body (rw ?st)) \<and>
              (StatusCode resp = 101 \<or> (200 \<le> StatusCode resp \<and> StatusCode resp \<le> 999) \<longrightarrow>
                 panicked ?st' = panicked ?st \<and>
                 rw_status (rw ?st') = Some (StatusCode resp) \<and>
                 (\<forall>n. Header_Values (rw_sent (rw ?st')) n =
                        Header_Values (rw_Header (rw ?st)) n @
                        concat (map snd (filter (\<lambda>e. fst e = n) (resp_Header resp)))) \<and>
                 rw_body (rw ?st') =
                   rw_body (rw ?st) @
                   (if resp_Body resp = '''' \<or> StatusCode resp = 101 \<or> StatusCode resp = 204 \<or>
                       StatusCode resp = 304
                    then [] else [Text (resp_Body resp)])) \<and>
              (100 \<le> StatusCode resp \<and> StatusCode resp \<le> 199 \<and> StatusCode resp \<noteq> 101 \<longrightarrow>
                 panicked ?st' = panicked ?st \<and>
                 map fst (rw_informational (rw ?st')) =
                   map fst (rw_informational (rw ?st)) @ [StatusCode resp] \<and>
                 rw_status (rw ?st') = (if resp_Body resp = '''' then None else Some 200) \<and>
                 rw_body (rw ?st') =
                   rw_body (rw ?st) @ (if resp_Body resp = '''' then [] else [Text (resp_Body resp)]))"
    by (elim exE conjE) (rule that, assumption+)
  have d: "client_Do scenario_World req = Inr backend_response"
    by (simp add: scenario_World_def u pets_request_facts(2))
  have c: "StatusCode backend_response = 101 \<or>
           (200 \<le> StatusCode backend_response \<and> StatusCode backend_response \<le> 999)"
    by (simp add: backend_response_def)
  from resp d c have r:
    "panicked ?st' = panicked ?st"
    "rw_status (rw ?st') = Some (StatusCode backend_response)"
    "\<forall>n. Header_Values (rw_sent (rw ?st')) n =
           Header_Values (rw_Header (rw ?st)) n @
           concat (map snd (filter (\<lambda>e. fst e = n) (resp_Header backend_response)))"
    "rw_body (rw ?st') =
       rw_body (rw ?st) @
       (if resp_Body backend_response = '''' \<or> StatusCode backend_response = 101 \<or>
           StatusCode backend_response = 204 \<or> StatusCode backend_response = 304
        then [] else [Text (resp_Body backend_response)])"
    by blast+
  have "issued ?st' = [req]"
    using i by (simp add: start_simps)
  moreover have "out_Method req = ''POST''"
    using m by (simp add: pets_request_facts(5))
  moreover have "Header_Values (out_Header req) ''Accept'' = [''application/json'', ''text/plain'']"
    using h by (simp add: pets_request_def)
  moreover have "Header_Values (out_Header req) ''X-Trace'' = [''abc'']"
    using h by (simp add: pets_request_def)
  moreover have "followed ?st' = []"
    using fo by (simp add: start_simps scenario_World_def)
  moreover have "panicked ?st' = None"
    using r(1) by (simp add: start_simps)
  moreover have "rw_status (rw ?st') = Some 201"
    using r(2) by (simp add: backend_response_def)
  moreover have "Header_Values (rw_sent (rw ?st')) ''Set-Cookie'' = [''a=1'', ''b=2'']"
    using r(3) by (simp add: backend_response_def start_simps Header_Values_def)
  moreover have \<open>rw_body (rw ?st') = [Text ''{"id":7}'']\<close>
    using r(4) by (simp add: backend_response_def start_simps)
  ultimately show ?thesis
    using b by blast
qed

text \<open>
  C10. The one request \<^verbatim>\<open>proxyRequest\<close> sends out has as its URL exactly the value of the
  \<^verbatim>\<open>proxyUrl\<close> query parameter. The inbound path and the other query parameters do not reach
  it: a request that differs only in path and in the rest of the query sends out the same
  request.
\<close>

theorem proxyRequest_target:
  assumes "Values_Get (URL_Query r) ''proxyUrl'' \<noteq> ''''"
    and "readBody (Body r) = Inr b"
    and "NewRequest_error W (Method r) (Values_Get (URL_Query r) ''proxyUrl'') = None"
  shows "(\<exists>req. issued (proxyRequest W r st) = issued st @ [req] \<and>
            out_URL req = Values_Get (URL_Query r) ''proxyUrl'') \<and>
         (\<forall>p q. Values_Get q ''proxyUrl'' = Values_Get (URL_Query r) ''proxyUrl'' \<longrightarrow>
            issued (proxyRequest W (r\<lparr>URL_Path := p, URL_Query := q\<rparr>) st) =
            issued (proxyRequest W r st))"
proof (intro conjI allI impI)
  have i: "issued (proxyRequest W r st) = issued st @ [relayed r b]"
    using assms by (rule proxyRequest_issued(1))
  then show "\<exists>req. issued (proxyRequest W r st) = issued st @ [req] \<and>
            out_URL req = Values_Get (URL_Query r) ''proxyUrl''"
    by (simp add: relayed_def)
  fix p q
  assume q: "Values_Get q ''proxyUrl'' = Values_Get (URL_Query r) ''proxyUrl''"
  let ?r = "r\<lparr>URL_Path := p, URL_Query := q\<rparr>"
  have "issued (proxyRequest W ?r st) = issued st @ [relayed ?r b]"
    using assms q by (intro proxyRequest_issued(1)) simp_all
  also have "relayed ?r b = relayed r b"
    using q by (simp add: relayed_def)
  finally show "issued (proxyRequest W ?r st) = issued (proxyRequest W r st)"
    using i by simp
qed

theorem proxyRequest_target_witness:
  "(\<exists>req. issued (proxyRequest scenario_World pets_request (start server0)) = [req] \<and>
          out_URL req = ''http://backend.example/pets'') \<and>
   issued (proxyRequest scenario_World
             (pets_request\<lparr>URL_Path := ''/proxy/other/path'',
                           URL_Query := [''proxyUrl'' \<mapsto> [''http://backend.example/pets''],
                                         ''page'' \<mapsto> [''2'']]\<rparr>)
             (start server0)) =
   issued (proxyRequest scenario_World pets_request (start server0))"
proof -
  let ?st = "start server0"
  have 1: "Values_Get (URL_Query pets_request) ''proxyUrl'' \<noteq> ''''"
    by (simp add: pets_request_def Values_Get_def)
  have 2: \<open>readBody (Body pets_request) = Inr (Some ''{"name":"rex"}'')\<close>
    by (simp add: pets_request_def readBody_def)
  have 3: "NewRequest_error scenario_World (Method pets_request)
             (Values_Get (URL_Query pets_request) ''proxyUrl'') = None"
    by (simp add: scenario_World_def)
  note T = proxyRequest_target [OF 1 2 3, of ?st]
  have v: "Values_Get (URL_Query pets_request) ''proxyUrl'' = ''http://backend.example/pets''"
    by (simp add: pets_request_def Values_Get_def)
  have a: "\<exists>req. issued (proxyRequest scenario_World pets_request ?st) = [req] \<and>
          out_URL req = ''http://backend.example/pets''"
    using T [THEN conjunct1] unfolding v by (simp add: start_simps)
  have q: "Values_Get [''proxyUrl'' \<mapsto> [''http://backend.example/pets''], ''page'' \<mapsto> [''2'']] ''proxyUrl''
           = Values_Get (URL_Query pets_request) ''proxyUrl''"
    unfolding v by (simp add: Values_Get_def)
  have b: "issued (proxyRequest scenario_World
             (pets_request\<lparr>URL_Path := ''/proxy/other/path'',
                           URL_Query := [''proxyUrl'' \<mapsto> [''http://backend.example/pets''],
                                         ''page'' \<mapsto> [''2'']]\<rparr>) ?st) =
           issued (proxyRequest scenario_World pets_request ?st)"
    using T [THEN conjunct2] q by blast
  from a b show ?thesis by blast
qed

section \<open>Resolving a path component\<close>

lemma makeServerURL_empty: "makeServerURL W mu '''' = Scheme mu @ ''://'' @ Host mu"
  by (simp add: makeServerURL_def)

lemma makeServerURL_absolute:
  "pc \<noteq> '''' \<Longrightarrow> url_Parse W pc = Inr u \<Longrightarrow> IsAbs u \<Longrightarrow> makeServerURL W mu pc = pc"
  by (simp add: makeServerURL_def)










section \<open>Rewriting by dialect\<close>

lemma openapi3_marker:
  "spec ''openapi'' = Some (JString v) \<Longrightarrow> prefix ''3.'' v \<Longrightarrow>
   string_or_empty spec ''openapi'' \<noteq> '''' \<and> prefix ''3.'' (string_or_empty spec ''openapi'')"
  by (auto simp: string_or_empty_def)

lemma not_openapi3_marker:
  "\<not> (\<exists>v. spec ''openapi'' = Some (JString v) \<and> prefix ''3.'' v) \<Longrightarrow>
   \<not> prefix ''3.'' (string_or_empty spec ''openapi'')"
  by (auto simp: string_or_empty_def split: option.splits json.splits)

lemma updateSpecServerInfo_openapi3:
  assumes "spec ''openapi'' = Some (JString v)" and "prefix ''3.'' v"
  shows "updateSpecServerInfo W spec mu =
     spec(''servers'' \<mapsto> JArray
        ((if fromFirstServer W mu (existingServers spec) = []
          then [server_entry (makeServerURL W mu '''')]
          else fromFirstServer W mu (existingServers spec)) @ existingServers spec))"
  using openapi3_marker [of spec v, OF assms]
  by (simp add: updateSpecServerInfo_def Let_def)

lemma fromFirstServer_wellformed:
  "spec ''servers'' = Some (JArray (JObject first # rest)) \<Longrightarrow> first ''url'' = Some (JString u) \<Longrightarrow>
   existingServers spec = JObject first # rest \<and>
   fromFirstServer W mu (existingServers spec) = [server_entry (makeServerURL W mu u)]"
  by (simp add: existingServers_def fromFirstServer_def)

lemma fromFirstServer_malformed:
  assumes "\<not> (\<exists>first rest u. spec ''servers'' = Some (JArray (JObject first # rest)) \<and>
                first ''url'' = Some (JString u))"
  shows "fromFirstServer W mu (existingServers spec) = []"
  using assms
  by (auto simp: existingServers_def fromFirstServer_def
      split: option.splits json.splits list.splits)

lemma updateSpecServerInfo_swagger2:
  assumes "spec ''swagger'' = Some (JString ''2.0'')"
    and "\<not> (\<exists>v. spec ''openapi'' = Some (JString v) \<and> prefix ''3.'' v)"
  shows "updateSpecServerInfo W spec mu = spec(''host'' \<mapsto> JString (Host mu))"
proof -
  have "string_or_empty spec ''swagger'' = ''2.0''"
    using assms(1) by (simp add: string_or_empty_def)
  then show ?thesis
    using not_openapi3_marker [of spec, OF assms(2)]
    by (simp add: updateSpecServerInfo_def Let_def)
qed

section \<open>Serving a document\<close>

lemma serveIndividualSpec_not_found:
  "specs (srv st) (TrimPrefix (URL_Path r) ''/api/'') = None \<Longrightarrow>
   serveIndividualSpec W r st =
     logAndSendError W r 404 (''API not found: '' @ TrimPrefix (URL_Path r) ''/api/'') ''API not found'' st"
  by (simp add: serveIndividualSpec_def Let_def)

lemma fetched_iff:
  "fetched W md mu spec \<longleftrightarrow>
     (\<exists>resp. http_Get W (URL md) = Inr resp \<and> StatusCode resp = 200 \<and>
             json_Decode W (resp_Body resp) = Inr spec) \<and> url_Parse W (URL md) = Inr mu"
  by (auto simp: fetched_def split: sum.splits)

lemma serveIndividualSpec_fetched:
  assumes "specs (srv st) (TrimPrefix (URL_Path r) ''/api/'') = Some md"
    and "fetched W md mu spec"
  shows "serveIndividualSpec W r st =
     encode_document W r (updateSpecServerInfo W spec mu)
       (slog DebugLevel (''Updating server info for spec: '' @ TrimPrefix (URL_Path r) ''/api/'')
          (call_client W (get_request (URL md)) st))"
proof -
  obtain resp where g: "http_Get W (URL md) = Inr resp" "StatusCode resp = 200"
      "json_Decode W (resp_Body resp) = Inr spec" and p: "url_Parse W (URL md) = Inr mu"
    using assms(2) unfolding fetched_iff by blast
  show ?thesis
    using assms(1) g p by (simp add: serveIndividualSpec_def Let_def)
qed

lemma Write_fresh_lost:
  assumes "rw_status w = None" and "p \<noteq> Text ''''" and "write_error W p = Some err"
  shows "rw_sending (snd (Write W p (w\<lparr>rw_Header := h\<rparr>))) = ConnectionLost 200 h err"
  using assms
  by (simp add: Write_def Let_def rw_status_None_iff bodyAllowedForStatus_def)

lemma encode_document_written:
  assumes "rw_status (rw st) = None"
  shows "rw_body (rw (encode_document W r doc st)) = rw_body (rw st) @ [Document doc]"
    and "rw_status (rw (encode_document W r doc st)) = Some 200"
    and "panicked (encode_document W r doc st) = panicked st"
    and "issued (encode_document W r doc st) = issued st"
    and "followed (encode_document W r doc st) = followed st"
    and "logger (srv (encode_document W r doc st)) =
           logger (srv st) @
           (case write_error W (Document doc) of
              None \<Rightarrow> []
            | Some err \<Rightarrow>
                [(ErrorLevel, ''['' @ Method r @ '' '' @ URL_Path r @
                              ''] HTTP 500 - Failed to encode modified spec: '' @ err)])"
proof -
  let ?h = "Header_Set ''Content-Type'' ''application/json'' (rw_Header (rw st))"
  let ?enc = "Write W (Document doc) ((rw st)\<lparr>rw_Header := ?h\<rparr>)"
  have n: "Document doc \<noteq> Text ''''" by simp
  note F = Write_fresh [OF assms n, of W ?h]
  have all: "rw_body (rw (encode_document W r doc st)) = rw_body (rw st) @ [Document doc] \<and>
      rw_status (rw (encode_document W r doc st)) = Some 200 \<and>
      panicked (encode_document W r doc st) = panicked st \<and>
      issued (encode_document W r doc st) = issued st \<and>
      followed (encode_document W r doc st) = followed st \<and>
      logger (srv (encode_document W r doc st)) =
           logger (srv st) @
           (case write_error W (Document doc) of
              None \<Rightarrow> []
            | Some err \<Rightarrow>
                [(ErrorLevel, ''['' @ Method r @ '' '' @ URL_Path r @
                              ''] HTTP 500 - Failed to encode modified spec: '' @ err)])"
  proof (cases "write_error W (Document doc)")
    case None
    then have e: "encode_document W r doc st = st\<lparr>rw := snd ?enc\<rparr>"
      by (simp add: encode_document_def Let_def F(4))
    show ?thesis
      unfolding e using None by (simp add: F(1,2))
  next
    case (Some err)
    then have e: "encode_document W r doc st =
        logAndSendError W r 500 (''Failed to encode modified spec: '' @ err)
          ''Failed to encode modified spec'' (st\<lparr>rw := snd ?enc\<rparr>)"
      by (simp add: encode_document_def Let_def F(4))
    have l: "rw_sending (snd ?enc) = ConnectionLost 200 ?h err"
      using assms n Some by (rule Write_fresh_lost)
    note L = http_Error_lost [OF l, of W "''Failed to encode modified spec''" 500]
    show ?thesis
      unfolding e logAndSendError_simps using Some
      by (simp add: L F(2) fmt_d_500)
  qed
  from all show "rw_body (rw (encode_document W r doc st)) = rw_body (rw st) @ [Document doc]"
    by (rule conjunct1)
  from all show "rw_status (rw (encode_document W r doc st)) = Some 200"
    by simp
  from all show "panicked (encode_document W r doc st) = panicked st"
    by simp
  from all show "issued (encode_document W r doc st) = issued st"
    by simp
  from all show "followed (encode_document W r doc st) = followed st"
    by simp
  from all show "logger (srv (encode_document W r doc st)) =
           logger (srv st) @
           (case write_error W (Document doc) of
              None \<Rightarrow> []
            | Some err \<Rightarrow>
                [(ErrorLevel, ''['' @ Method r @ '' '' @ URL_Path r @
                              ''] HTTP 500 - Failed to encode modified spec: '' @ err)])"
    by simp
qed

lemma fetching_state:
  "rw (slog lvl msg (call_client W req st)) = rw st"
  "issued (slog lvl msg (call_client W req st)) = issued st @ [req]"
  "followed (slog lvl msg (call_client W req st)) = followed st @ redirects W req"
  "panicked (slog lvl msg (call_client W req st)) = panicked st"
  "logger (srv (slog lvl msg (call_client W req st))) = logger (srv st) @ [(lvl, msg)]"
  by (simp_all add: slog_simps call_client_simps)

lemma serveIndividualSpec_document:
  assumes "specs (srv st) (TrimPrefix (URL_Path r) ''/api/'') = Some md"
    and "fetched W md mu spec"
    and "rw_status (rw st) = None"
  shows "rw_body (rw (serveIndividualSpec W r st)) =
           rw_body (rw st) @ [Document (updateSpecServerInfo W spec mu)]"
    and "rw_status (rw (serveIndividualSpec W r st)) = Some 200"
    and "panicked (serveIndividualSpec W r st) = panicked st"
    and "logger (srv (serveIndividualSpec W r st)) =
           logger (srv st) @
           (DebugLevel, ''Updating server info for spec: '' @ TrimPrefix (URL_Path r) ''/api/'') #
           (case write_error W (Document (updateSpecServerInfo W spec mu)) of
              None \<Rightarrow> []
            | Some err \<Rightarrow>
                [(ErrorLevel, ''['' @ Method r @ '' '' @ URL_Path r @
                              ''] HTTP 500 - Failed to encode modified spec: '' @ err)])"
proof -
  let ?st2 = "slog DebugLevel (''Updating server info for spec: '' @ TrimPrefix (URL_Path r) ''/api/'')
          (call_client W (get_request (URL md)) st)"
  have f: "rw_status (rw ?st2) = None"
    using assms(3) by (simp add: fetching_state)
  note E = encode_document_written [OF f, of W r "updateSpecServerInfo W spec mu"]
  note S = serveIndividualSpec_fetched [OF assms(1,2)]
  show "rw_body (rw (serveIndividualSpec W r st)) =
           rw_body (rw st) @ [Document (updateSpecServerInfo W spec mu)]"
    unfolding S E(1) by (simp add: fetching_state)
  show "rw_status (rw (serveIndividualSpec W r st)) = Some 200"
    unfolding S by (rule E(2))
  show "panicked (serveIndividualSpec W r st) = panicked st"
    unfolding S E(3) by (simp add: fetching_state)
  show "logger (srv (serveIndividualSpec W r st)) =
           logger (srv st) @
           (DebugLevel, ''Updating server info for spec: '' @ TrimPrefix (URL_Path r) ''/api/'') #
           (case write_error W (Document (updateSpecServerInfo W spec mu)) of
              None \<Rightarrow> []
            | Some err \<Rightarrow>
                [(ErrorLevel, ''['' @ Method r @ '' '' @ URL_Path r @
                              ''] HTTP 500 - Failed to encode modified spec: '' @ err)])"
    unfolding S E(6) by (simp add: fetching_state)
qed

lemma serveIndividualSpec_fetch_failed:
  assumes "specs (srv st) (TrimPrefix (URL_Path r) ''/api/'') = Some md"
    and "http_Get W (URL md) = Inl err"
  shows "serveIndividualSpec W r st =
           logAndSendError W r 500 (''Failed to fetch spec: '' @ err) (''Failed to fetch spec: '' @ err)
             (call_client W (get_request (URL md)) st)"
  using assms by (simp add: serveIndividualSpec_def Let_def)




text \<open>An unknown name is answered with a fixed text; its log line names the API asked for.\<close>

lemma not_found_is_generic:
  assumes "specs (srv st) (TrimPrefix (URL_Path r) ''/api/'') = None" and "rw_status (rw st) = None"
  shows "rw_status (rw (serveIndividualSpec W r st)) = Some 404"
    and "rw_body (rw (serveIndividualSpec W r st)) = rw_body (rw st) @ [Text (''API not found'' @ [CHR 0x0A])]"
    and "issued (serveIndividualSpec W r st) = issued st"
  unfolding serveIndividualSpec_not_found [OF assms(1)] logAndSendError_simps
  using assms(2) by (simp_all add: http_Error_fresh)

lemma petstore_registered:
  "specs (srv (start registry_server)) (TrimPrefix (URL_Path (api_request ''petstore'')) ''/api/'') =
     Some (stored_metadata petstore_candidate)"
  by (simp add: api_request_name start_simps registry_server_specs)

lemma inventory_registered:
  "specs (srv (start registry_server)) (TrimPrefix (URL_Path (api_request ''inventory'')) ''/api/'') =
     Some (stored_metadata inventory_candidate)"
  by (simp add: api_request_name start_simps registry_server_specs)

lemma fetched_petstore:
  "fetched scenario_World (stored_metadata petstore_candidate) petstore_url swagger2_doc"
  by (simp add: fetched_def scenario_World_def stored_metadata_def petstore_candidate_def)

lemma fetched_inventory:
  "fetched scenario_World (stored_metadata inventory_candidate) inventory_url openapi3_doc"
  by (simp add: fetched_def scenario_World_def stored_metadata_def inventory_candidate_def
      swagger2_body_def openapi3_body_def)

lemma fetched_inventory_bare:
  "fetched bare_World (stored_metadata inventory_candidate) inventory_url bare_openapi3_doc"
  by (simp add: fetched_def bare_World_def scenario_World_def stored_metadata_def
      inventory_candidate_def)

lemma fresh_after_call:
  "rw_status (rw (call_client W req (start s))) = None"
  "rw_body (rw (call_client W req (start s))) = []"
  "logger (srv (call_client W req (start s))) = logger s"
  by (simp_all add: call_client_simps start_simps)




text \<open>
  C1. For a registered record whose fetch succeeds with an OpenAPI 3.x document (a string
  \<^verbatim>\<open>openapi\<close> beginning with \<^verbatim>\<open>3.\<close>), the document written has all keys but \<^verbatim>\<open>servers\<close>
  unchanged. If \<^verbatim>\<open>servers\<close> was an array whose first entry is an object with a string
  \<^verbatim>\<open>url\<close>, the new array is one entry whose only key is \<^verbatim>\<open>url\<close>, with
  \<^verbatim>\<open>makeServerURL\<close> of the base and that first URL as value, followed by the original
  entries in their order. Otherwise (no array, an empty one, or a first entry of another
  shape) the new array is one entry with URL \<^verbatim>\<open>makeServerURL\<close> of the base and the empty
  string, which is scheme, \<^verbatim>\<open>://\<close>, host of the base, followed by the original array
  entries if there were any. The base is the parsed URL of the registry record.
\<close>

theorem Render_openapi3_servers:
  assumes "specs (srv st) (TrimPrefix (URL_Path r) ''/api/'') = Some md"
    and "fetched W md mu spec"
    and "rw_status (rw st) = None"
    and "spec ''openapi'' = Some (JString v)" and "prefix ''3.'' v"
  shows "\<exists>doc. rw_body (rw (serveIndividualSpec W r st)) = rw_body (rw st) @ [Document doc] \<and>
     (\<forall>first rest u.
        spec ''servers'' = Some (JArray (JObject first # rest)) \<and> first ''url'' = Some (JString u) \<longrightarrow>
        doc ''servers'' =
          Some (JArray (server_entry (makeServerURL W mu u) # JObject first # rest))) \<and>
     (\<not> (\<exists>first rest u.
            spec ''servers'' = Some (JArray (JObject first # rest)) \<and> first ''url'' = Some (JString u)) \<longrightarrow>
        doc ''servers'' =
          Some (JArray (server_entry (makeServerURL W mu '''') # existingServers spec))) \<and>
     makeServerURL W mu '''' = Scheme mu @ ''://'' @ Host mu \<and>
     (\<forall>k. k \<noteq> ''servers'' \<longrightarrow> doc k = spec k)"
proof (intro exI [of _ "updateSpecServerInfo W spec mu"] conjI allI impI)
  note U = updateSpecServerInfo_openapi3 [of spec v W mu, OF assms(4,5)]
  show "rw_body (rw (serveIndividualSpec W r st)) =
          rw_body (rw st) @ [Document (updateSpecServerInfo W spec mu)]"
    using assms(1-3) by (rule serveIndividualSpec_document(1))
  show "makeServerURL W mu '''' = Scheme mu @ ''://'' @ Host mu"
    by (rule makeServerURL_empty)
  show "updateSpecServerInfo W spec mu k = spec k" if "k \<noteq> ''servers''" for k
    unfolding U using that by simp
  show "updateSpecServerInfo W spec mu ''servers'' =
          Some (JArray (server_entry (makeServerURL W mu u) # JObject first # rest))"
    if "spec ''servers'' = Some (JArray (JObject first # rest)) \<and> first ''url'' = Some (JString u)"
    for first rest u
  proof -
    have e: "existingServers spec = JObject first # rest"
      and f: "fromFirstServer W mu (existingServers spec) = [server_entry (makeServerURL W mu u)]"
      using fromFirstServer_wellformed [of spec first rest u W mu] that by blast+
    show ?thesis
      unfolding U f unfolding e by simp
  qed
  show "updateSpecServerInfo W spec mu ''servers'' =
          Some (JArray (server_entry (makeServerURL W mu '''') # existingServers spec))"
    if "\<not> (\<exists>first rest u.
            spec ''servers'' = Some (JArray (JObject first # rest)) \<and> first ''url'' = Some (JString u))"
    unfolding U using fromFirstServer_malformed [of spec W mu, OF that] by simp
qed

lemma scenario_relative:
  "makeServerURL scenario_World inventory_url ''api/v3'' = ''http://inv.example/docs/openapi.json/api/v3''"
  by (simp add: makeServerURL_def scenario_World_def inventory_url_def zero_url_def IsAbs_def Let_def)

text \<open>
  The inventory document with two servers, the first one relative; and the same record
  answered by a document without servers.
\<close>

theorem Render_openapi3_servers_witness:
  "(\<exists>doc. rw_body (rw (serveIndividualSpec scenario_World (api_request ''inventory'') (start registry_server)))
           = [Document doc] \<and>
         doc ''servers'' =
           Some (JArray [JObject [''url'' \<mapsto> JString ''http://inv.example/docs/openapi.json/api/v3''],
                         JObject [''url'' \<mapsto> JString ''api/v3''],
                         JObject [''url'' \<mapsto> JString ''https://other.example/x'']]) \<and>
         doc ''openapi'' = Some (JString ''3.0.3'')) \<and>
   (\<exists>doc. rw_body (rw (serveIndividualSpec bare_World (api_request ''inventory'') (start registry_server)))
           = [Document doc] \<and>
         doc ''servers'' = Some (JArray [JObject [''url'' \<mapsto> JString ''http://inv.example'']]))"
proof -
  let ?r = "api_request ''inventory''" and ?st = "start registry_server"
  have 3: "rw_status (rw ?st) = None"
    by (simp add: start_simps)
  have 4: "openapi3_doc ''openapi'' = Some (JString ''3.0.3'')"
    by (simp add: openapi3_doc_def)
  have 5: "prefix ''3.'' ''3.0.3''"
    by simp
  obtain doc where
    b: "rw_body (rw (serveIndividualSpec scenario_World ?r ?st)) = rw_body (rw ?st) @ [Document doc]"
    and w: "\<forall>first rest u.
        openapi3_doc ''servers'' = Some (JArray (JObject first # rest)) \<and> first ''url'' = Some (JString u) \<longrightarrow>
        doc ''servers'' =
          Some (JArray (server_entry (makeServerURL scenario_World inventory_url u) # JObject first # rest))"
    and k: "\<forall>k. k \<noteq> ''servers'' \<longrightarrow> doc k = openapi3_doc k"
    using Render_openapi3_servers [of ?st ?r _ scenario_World inventory_url openapi3_doc "''3.0.3''",
        OF inventory_registered fetched_inventory 3 4 5] by blast
  have "openapi3_doc ''servers'' =
          Some (JArray (JObject [''url'' \<mapsto> JString ''api/v3''] #
                        [JObject [''url'' \<mapsto> JString ''https://other.example/x'']])) \<and>
        [''url'' \<mapsto> JString ''api/v3''] ''url'' = Some (JString ''api/v3'')"
    by (simp add: openapi3_doc_def)
  with w have "doc ''servers'' =
          Some (JArray (server_entry (makeServerURL scenario_World inventory_url ''api/v3'') #
                        JObject [''url'' \<mapsto> JString ''api/v3''] #
                        [JObject [''url'' \<mapsto> JString ''https://other.example/x'']]))"
    by blast
  then have "doc ''servers'' =
           Some (JArray [JObject [''url'' \<mapsto> JString ''http://inv.example/docs/openapi.json/api/v3''],
                         JObject [''url'' \<mapsto> JString ''api/v3''],
                         JObject [''url'' \<mapsto> JString ''https://other.example/x'']])"
    by (simp add: scenario_relative server_entry_def)
  moreover have "rw_body (rw (serveIndividualSpec scenario_World ?r ?st)) = [Document doc]"
    using b by (simp add: start_simps)
  moreover have "doc ''openapi'' = Some (JString ''3.0.3'')"
    using k by (simp add: openapi3_doc_def)
  ultimately have first: "\<exists>doc. rw_body (rw (serveIndividualSpec scenario_World ?r ?st)) = [Document doc] \<and>
         doc ''servers'' =
           Some (JArray [JObject [''url'' \<mapsto> JString ''http://inv.example/docs/openapi.json/api/v3''],
                         JObject [''url'' \<mapsto> JString ''api/v3''],
                         JObject [''url'' \<mapsto> JString ''https://other.example/x'']]) \<and>
         doc ''openapi'' = Some (JString ''3.0.3'')"
    by blast
  have 6: "bare_openapi3_doc ''openapi'' = Some (JString ''3.1.0'')"
    by (simp add: bare_openapi3_doc_def)
  have 7: "prefix ''3.'' ''3.1.0''"
    by simp
  have none: "\<not> (\<exists>first rest u.
            bare_openapi3_doc ''servers'' = Some (JArray (JObject first # rest)) \<and>
            first ''url'' = Some (JString u))"
    by (simp add: bare_openapi3_doc_def)
  obtain doc2 where
    b2: "rw_body (rw (serveIndividualSpec bare_World ?r ?st)) = rw_body (rw ?st) @ [Document doc2]"
    and m2: "\<not> (\<exists>first rest u.
            bare_openapi3_doc ''servers'' = Some (JArray (JObject first # rest)) \<and>
            first ''url'' = Some (JString u)) \<longrightarrow>
        doc2 ''servers'' =
          Some (JArray (server_entry (makeServerURL bare_World inventory_url '''') #
                        existingServers bare_openapi3_doc))"
    and h2: "makeServerURL bare_World inventory_url '''' = Scheme inventory_url @ ''://'' @ Host inventory_url"
    using Render_openapi3_servers [of ?st ?r _ bare_World inventory_url bare_openapi3_doc "''3.1.0''",
        OF inventory_registered fetched_inventory_bare 3 6 7]
    by (elim exE conjE) (rule that, assumption+)
  have "doc2 ''servers'' =
          Some (JArray (server_entry (makeServerURL bare_World inventory_url '''') #
                        existingServers bare_openapi3_doc))"
    using m2 none by blast
  then have "doc2 ''servers'' = Some (JArray [JObject [''url'' \<mapsto> JString ''http://inv.example'']])"
    unfolding h2
    by (simp add: server_entry_def existingServers_def bare_openapi3_doc_def inventory_url_def zero_url_def)
  moreover have "rw_body (rw (serveIndividualSpec bare_World ?r ?st)) = [Document doc2]"
    using b2 by (simp add: start_simps)
  ultimately have second: "\<exists>doc. rw_body (rw (serveIndividualSpec bare_World ?r ?st)) = [Document doc] \<and>
         doc ''servers'' = Some (JArray [JObject [''url'' \<mapsto> JString ''http://inv.example'']])"
    by blast
  from first second show ?thesis by blast
qed

text \<open>
  C3. For a registered record whose fetch succeeds with a Swagger 2.0 document (\<^verbatim>\<open>swagger\<close> is
  the string \<^verbatim>\<open>2.0\<close>, and there is no string \<^verbatim>\<open>openapi\<close> beginning with \<^verbatim>\<open>3.\<close>), the document
  written has \<^verbatim>\<open>host\<close> set to the \<^verbatim>\<open>Host\<close> of the parsed URL of the registry record, and every
  other key, \<^verbatim>\<open>basePath\<close> and \<^verbatim>\<open>schemes\<close> among them, as it was.
\<close>

theorem Render_swagger2_host:
  assumes "specs (srv st) (TrimPrefix (URL_Path r) ''/api/'') = Some md"
    and "fetched W md mu spec"
    and "rw_status (rw st) = None"
    and "spec ''swagger'' = Some (JString ''2.0'')"
    and "\<not> (\<exists>v. spec ''openapi'' = Some (JString v) \<and> prefix ''3.'' v)"
  shows "\<exists>doc. rw_body (rw (serveIndividualSpec W r st)) = rw_body (rw st) @ [Document doc] \<and>
     doc ''host'' = Some (JString (Host mu)) \<and>
     doc ''basePath'' = spec ''basePath'' \<and>
     doc ''schemes'' = spec ''schemes'' \<and>
     (\<forall>k. k \<noteq> ''host'' \<longrightarrow> doc k = spec k)"
proof (intro exI [of _ "updateSpecServerInfo W spec mu"] conjI allI impI)
  note U = updateSpecServerInfo_swagger2 [of spec W mu, OF assms(4,5)]
  show "rw_body (rw (serveIndividualSpec W r st)) =
          rw_body (rw st) @ [Document (updateSpecServerInfo W spec mu)]"
    using assms(1-3) by (rule serveIndividualSpec_document(1))
  show "updateSpecServerInfo W spec mu ''host'' = Some (JString (Host mu))"
    unfolding U by simp
  show "updateSpecServerInfo W spec mu ''basePath'' = spec ''basePath''"
    unfolding U by simp
  show "updateSpecServerInfo W spec mu ''schemes'' = spec ''schemes''"
    unfolding U by simp
  show "updateSpecServerInfo W spec mu k = spec k" if "k \<noteq> ''host''" for k
    unfolding U using that by simp
qed

text \<open>
  The spec's scenario: the record \<^verbatim>\<open>petstore\<close> at \<^verbatim>\<open>http://spec.example/v2/swagger.json\<close> and a
  body with \<^verbatim>\<open>swagger\<close> 2.0 and \<^verbatim>\<open>basePath\<close> \<^verbatim>\<open>/v2\<close>.
\<close>

theorem Render_swagger2_host_witness:
  "\<exists>doc. rw_body (rw (serveIndividualSpec scenario_World (api_request ''petstore'') (start registry_server)))
           = [Document doc] \<and>
         doc ''host'' = Some (JString ''spec.example'') \<and>
         doc ''basePath'' = Some (JString ''/v2'') \<and>
         doc ''schemes'' = None \<and>
         doc ''swagger'' = Some (JString ''2.0'')"
proof -
  let ?r = "api_request ''petstore''" and ?st = "start registry_server"
  have 3: "rw_status (rw ?st) = None"
    by (simp add: start_simps)
  have 4: "swagger2_doc ''swagger'' = Some (JString ''2.0'')"
    by (simp add: swagger2_doc_def)
  have 5: "\<not> (\<exists>v. swagger2_doc ''openapi'' = Some (JString v) \<and> prefix ''3.'' v)"
    by (simp add: swagger2_doc_def)
  obtain doc where
    b: "rw_body (rw (serveIndividualSpec scenario_World ?r ?st)) = rw_body (rw ?st) @ [Document doc]"
    and h: "doc ''host'' = Some (JString (Host petstore_url))"
    and p: "doc ''basePath'' = swagger2_doc ''basePath''"
    and s: "doc ''schemes'' = swagger2_doc ''schemes''"
    and k: "\<forall>k. k \<noteq> ''host'' \<longrightarrow> doc k = swagger2_doc k"
    using Render_swagger2_host [of ?st ?r _ scenario_World petstore_url swagger2_doc,
        OF petstore_registered fetched_petstore 3 4 5] by blast
  have "rw_body (rw (serveIndividualSpec scenario_World ?r ?st)) = [Document doc]"
    using b by (simp add: start_simps)
  moreover have "doc ''host'' = Some (JString ''spec.example'')"
    using h by (simp add: petstore_url_def zero_url_def)
  moreover have "doc ''basePath'' = Some (JString ''/v2'')"
    using p by (simp add: swagger2_doc_def)
  moreover have "doc ''schemes'' = None"
    using s by (simp add: swagger2_doc_def)
  moreover have "doc ''swagger'' = Some (JString ''2.0'')"
    using k by (simp add: swagger2_doc_def)
  ultimately show ?thesis by blast
qed

text \<open>
  C6 does not hold of the code. When the fetch of a registered document fails in the network,
  the text sent to the client is \<^verbatim>\<open>Failed to fetch spec:\<close> followed by the text of the underlying
  error, the very text of the log line; \<^verbatim>\<open>logAndSendError\<close> is documented to send a generic
  message, and the branch for an unknown name does send one.
\<close>

theorem fetch_failure_text_reaches_client:
  "rw_body (rw (serveIndividualSpec unreachable_World (api_request ''petstore'') (start registry_server)))
     = [Text (''Failed to fetch spec: Get http://spec.example/v2/swagger.json: dial tcp 10.0.0.7:80: connect: connection refused''
              @ [CHR 0x0A])] \<and>
   logger (srv (serveIndividualSpec unreachable_World (api_request ''petstore'') (start registry_server)))
     = logger registry_server @
       [(ErrorLevel, ''[GET /api/petstore] HTTP 500 - Failed to fetch spec: Get http://spec.example/v2/swagger.json: dial tcp 10.0.0.7:80: connect: connection refused'')]"
proof -
  have g: "http_Get unreachable_World (URL (stored_metadata petstore_candidate)) =
             Inl ''Get http://spec.example/v2/swagger.json: dial tcp 10.0.0.7:80: connect: connection refused''"
    by (simp add: unreachable_World_def)
  note e = serveIndividualSpec_fetch_failed [OF petstore_registered g]
  have c: "(200::int) \<le> 500" "(500::int) \<le> 999" "(500::int) \<noteq> 204" "(500::int) \<noteq> 304"
    by simp_all
  show ?thesis
    unfolding e logAndSendError_simps http_Error_fresh(2) [OF fresh_after_call(1) c]
    by (simp add: fresh_after_call fmt_d_500 api_request_def)
qed


end
